theory Spec2Isabelle
  imports Main "HOL-Library.Multiset" "HOL-Library.Sublist" "HOL-Library.Word"
begin

section \<open>Go values handled by the YAML store\<close>

text \<open>
  The store (\<^verbatim>\<open>yaml/store.go\<close>) works on values of Go's empty interface. The
  dynamic types that occur are the scalars the YAML decoder produces, the ordered
  \<^verbatim>\<open>yaml.MapSlice\<close>, the plain \<^verbatim>\<open>map[interface{}]interface{}\<close>, the slice
  \<^verbatim>\<open>[]interface{}\<close> and the tree type \<^verbatim>\<open>sops.TreeBranch\<close> (a slice of
  \<^verbatim>\<open>sops.TreeItem\<close>, whose key is a string).

  A \<open>GMapSlice\<close> lists its items in slice order. A \<open>GMap\<close> lists the entries of a Go
  map, each key once, in the order of the document they were decoded from; a Go map
  itself has no order, and the order in which \<^verbatim>\<open>range\<close> visits its entries is chosen
  by the Go runtime (see \<open>yamlMapToTreeBranch\<close>). A slice is the list of its elements:
  the nil slice and the empty slice are the same list. A \<open>float64\<close> is given by its
  IEEE 754 bits.
\<close>

datatype gvalue =
    GNil
  | GString string
  | GInt int
  | GFloat "64 word"
  | GBool bool
  | GMapSlice "(gvalue \<times> gvalue) list"
  | GMap "(gvalue \<times> gvalue) list"
  | GSlice "gvalue list"
  | GTreeBranch "(string \<times> gvalue) list"

type_synonym MapItem = "gvalue \<times> gvalue"
type_synonym MapSlice = "MapItem list"
type_synonym TreeItem = "string \<times> gvalue"
type_synonym TreeBranch = "TreeItem list"
type_synonym error = string

text \<open>
  A run-time panic of the Go program. An unchecked type assertion \<^verbatim>\<open>x.(T)\<close> on a
  value of another dynamic type panics with an interface conversion error; the string
  names the asserted expression of the source. A slice expression whose low bound
  exceeds its high bound panics with a bounds error.
\<close>

datatype panic = InterfaceConversion string | SliceBoundsOutOfRange

text \<open>\<^verbatim>\<open>x.(string)\<close>, at the expression named \<open>site\<close>.\<close>

fun assertString :: "string \<Rightarrow> gvalue \<Rightarrow> panic + string" where
  "assertString site (GString s) = Inr s"
| "assertString site v = Inl (InterfaceConversion site)"

text \<open>\<^verbatim>\<open>x.(map[interface{}]interface{})\<close>, at the expression named \<open>site\<close>.\<close>

fun assertMap :: "string \<Rightarrow> gvalue \<Rightarrow> panic + MapSlice" where
  "assertMap site (GMap m) = Inr m"
| "assertMap site v = Inl (InterfaceConversion site)"

text \<open>
  The index expression \<^verbatim>\<open>m[k]\<close> on a \<^verbatim>\<open>map[interface{}]interface{}\<close>: the value
  stored under the key, or the nil interface when the key is absent.
\<close>

definition mapIndex :: "MapSlice \<Rightarrow> gvalue \<Rightarrow> gvalue" where
  "mapIndex m k = (case map_of m k of None \<Rightarrow> GNil | Some v \<Rightarrow> v)"

section \<open>From YAML values to the tree\<close>

text \<open>
  \<^verbatim>\<open>mapSliceToTreeBranch\<close> appends one \<^verbatim>\<open>TreeItem\<close> per item of the slice, in slice
  order; the key is asserted to be a string without a check.
  \<^verbatim>\<open>yamlValueToTreeValue\<close> is the type switch of the source, with its default
  branch returning the value as it is. \<^verbatim>\<open>yamlSliceToTreeValue\<close> converts every
  element in place. \<^verbatim>\<open>yamlMapToTreeBranch\<close> ranges over a Go map: \<open>yamlMapItems\<close>
  builds the item of every entry, and the parameter \<open>rng\<close> is the order in which the
  runtime's \<^verbatim>\<open>range\<close> visited the entries, as a rearrangement of the appended items
  (the Go specification leaves the iteration order over maps unspecified).
\<close>

fun yamlValueToTreeValue :: "(TreeBranch \<Rightarrow> TreeBranch) \<Rightarrow> gvalue \<Rightarrow> panic + gvalue"
  and mapSliceToTreeBranch :: "(TreeBranch \<Rightarrow> TreeBranch) \<Rightarrow> MapSlice \<Rightarrow> panic + TreeBranch"
  and yamlSliceToTreeValue :: "(TreeBranch \<Rightarrow> TreeBranch) \<Rightarrow> gvalue list \<Rightarrow> panic + gvalue list"
  and yamlMapToTreeBranch :: "(TreeBranch \<Rightarrow> TreeBranch) \<Rightarrow> MapSlice \<Rightarrow> panic + TreeBranch"
  and yamlMapItems :: "(TreeBranch \<Rightarrow> TreeBranch) \<Rightarrow> MapSlice \<Rightarrow> panic + TreeBranch"
where
  "yamlValueToTreeValue rng (GMap m) =
     (case yamlMapToTreeBranch rng m of Inl p \<Rightarrow> Inl p | Inr b \<Rightarrow> Inr (GTreeBranch b))"
| "yamlValueToTreeValue rng (GMapSlice m) =
     (case mapSliceToTreeBranch rng m of Inl p \<Rightarrow> Inl p | Inr b \<Rightarrow> Inr (GTreeBranch b))"
| "yamlValueToTreeValue rng (GSlice xs) =
     (case yamlSliceToTreeValue rng xs of Inl p \<Rightarrow> Inl p | Inr ys \<Rightarrow> Inr (GSlice ys))"
| "yamlValueToTreeValue rng GNil = Inr GNil"
| "yamlValueToTreeValue rng (GString s) = Inr (GString s)"
| "yamlValueToTreeValue rng (GInt i) = Inr (GInt i)"
| "yamlValueToTreeValue rng (GFloat f) = Inr (GFloat f)"
| "yamlValueToTreeValue rng (GBool b) = Inr (GBool b)"
| "yamlValueToTreeValue rng (GTreeBranch b) = Inr (GTreeBranch b)"
| "mapSliceToTreeBranch rng [] = Inr []"
| "mapSliceToTreeBranch rng (item # rest) =
     (case assertString ''item.Key'' (fst item) of
        Inl p \<Rightarrow> Inl p
      | Inr key \<Rightarrow>
          (case yamlValueToTreeValue rng (snd item) of
             Inl p \<Rightarrow> Inl p
           | Inr val \<Rightarrow>
               (case mapSliceToTreeBranch rng rest of
                  Inl p \<Rightarrow> Inl p
                | Inr branch \<Rightarrow> Inr ((key, val) # branch))))"
| "yamlSliceToTreeValue rng [] = Inr []"
| "yamlSliceToTreeValue rng (v # rest) =
     (case yamlValueToTreeValue rng v of
        Inl p \<Rightarrow> Inl p
      | Inr v' \<Rightarrow>
          (case yamlSliceToTreeValue rng rest of
             Inl p \<Rightarrow> Inl p
           | Inr rest' \<Rightarrow> Inr (v' # rest')))"
| "yamlMapToTreeBranch rng m =
     (case yamlMapItems rng m of Inl p \<Rightarrow> Inl p | Inr items \<Rightarrow> Inr (rng items))"
| "yamlMapItems rng [] = Inr []"
| "yamlMapItems rng (entry # rest) =
     (case assertString ''k'' (fst entry) of
        Inl p \<Rightarrow> Inl p
      | Inr key \<Rightarrow>
          (case yamlValueToTreeValue rng (snd entry) of
             Inl p \<Rightarrow> Inl p
           | Inr val \<Rightarrow>
               (case yamlMapItems rng rest of
                  Inl p \<Rightarrow> Inl p
                | Inr branch \<Rightarrow> Inr ((key, val) # branch))))"

section \<open>From the tree to YAML values\<close>

text \<open>
  \<^verbatim>\<open>treeValueToYamlValue\<close> turns a \<^verbatim>\<open>sops.TreeBranch\<close> into a \<^verbatim>\<open>yaml.MapSlice\<close>
  and returns every other value as it is (a slice included: its elements are not
  visited). \<^verbatim>\<open>treeBranchToYamlMap\<close> appends one \<^verbatim>\<open>yaml.MapItem\<close> per tree item.
\<close>

fun treeValueToYamlValue :: "gvalue \<Rightarrow> gvalue"
  and treeBranchToYamlMap :: "TreeBranch \<Rightarrow> MapSlice"
where
  "treeValueToYamlValue (GTreeBranch b) = GMapSlice (treeBranchToYamlMap b)"
| "treeValueToYamlValue GNil = GNil"
| "treeValueToYamlValue (GString s) = GString s"
| "treeValueToYamlValue (GInt i) = GInt i"
| "treeValueToYamlValue (GFloat f) = GFloat f"
| "treeValueToYamlValue (GBool b) = GBool b"
| "treeValueToYamlValue (GMapSlice m) = GMapSlice m"
| "treeValueToYamlValue (GMap m) = GMap m"
| "treeValueToYamlValue (GSlice xs) = GSlice xs"
| "treeBranchToYamlMap [] = []"
| "treeBranchToYamlMap (item # rest) =
     (GString (fst item), treeValueToYamlValue (snd item)) # treeBranchToYamlMap rest"

section \<open>The external libraries\<close>

text \<open>
  The YAML library (\<^verbatim>\<open>github.com/autrilla/yaml\<close>) and \<^verbatim>\<open>time.Parse\<close> are not part of
  the store; they are parameters of the model. \<open>Unmarshal_MapSlice\<close> is
  \<^verbatim>\<open>yaml.Unmarshal\<close> into a \<^verbatim>\<open>yaml.MapSlice\<close>, \<open>Unmarshal_Map\<close> is
  \<^verbatim>\<open>yaml.Unmarshal\<close> into a \<^verbatim>\<open>map[interface{}]interface{}\<close> that was made empty
  before the call, and \<open>Marshal\<close> is \<^verbatim>\<open>yaml.Marshal\<close>. Each returns the error of
  the library (\<open>Inl\<close>) or its result.
\<close>

record yaml_lib =
  Unmarshal_MapSlice :: "string \<Rightarrow> error + MapSlice"
  Unmarshal_Map :: "string \<Rightarrow> error + MapSlice"
  Marshal :: "gvalue \<Rightarrow> error + string"

text \<open>
  An instant of \<^verbatim>\<open>time.Time\<close>, in seconds counted from the zero value of the type.
  The parameter \<open>timeParse\<close> of the functions below is
  \<^verbatim>\<open>time.Parse(sops.DateFormat, _)\<close>.
\<close>

type_synonym Time = int

section \<open>Load\<close>

text \<open>
  The loop of \<^verbatim>\<open>Load\<close> that removes the metadata block:
  \<^verbatim>\<open>for i, item := range data { if item.Key == "sops" { data = append(data[:i], data[i+1:]...) } }\<close>
  The range expression is evaluated once, so the loop runs over the \<open>n\<close> indices of
  the slice as it was, and reads \<open>item\<close> from the backing array \<open>arr\<close> at each
  step. The variable \<^verbatim>\<open>data\<close> is the prefix of length \<open>l\<close> of the same array:
  the \<^verbatim>\<open>append\<close> stays within the capacity and moves the elements
  \<open>i + 1, ..., l - 1\<close> one place down in the array. The slice expression
  \<^verbatim>\<open>data[i+1:]\<close> panics when \<open>i + 1\<close> exceeds the length \<open>l\<close>. The result is the
  final value of \<^verbatim>\<open>data\<close>.
\<close>

function Load_loop :: "MapSlice \<Rightarrow> nat \<Rightarrow> nat \<Rightarrow> nat \<Rightarrow> panic + MapSlice" where
  "Load_loop arr n i l =
     (if i < n then
        (if fst (arr ! i) = GString ''sops'' then
           (if i + 1 \<le> l then
              Load_loop (take i arr @ drop (i + 1) (take l arr) @ drop (l - 1) arr) n (i + 1) (l - 1)
            else Inl SliceBoundsOutOfRange)
         else Load_loop arr n (i + 1) l)
      else Inr (take l arr))"
  by pat_completeness auto
termination
  by (relation "measure (\<lambda>(arr, n, i, l). n - i)") auto

declare Load_loop.simps [simp del]

text \<open>
  \<^verbatim>\<open>Load\<close> returns a pair of a tree (\<open>None\<close> is the nil slice) and an error (\<open>None\<close>
  is the nil error), or panics.
\<close>

definition Load :: "yaml_lib \<Rightarrow> (TreeBranch \<Rightarrow> TreeBranch) \<Rightarrow> string
    \<Rightarrow> panic + (TreeBranch option \<times> error option)" where
  "Load lib rng inp =
     (case Unmarshal_MapSlice lib inp of
        Inl err \<Rightarrow> Inr (None, Some (''Error unmarshaling input YAML: '' @ err))
      | Inr data \<Rightarrow>
          (case Load_loop data (length data) 0 (length data) of
             Inl p \<Rightarrow> Inl p
           | Inr data' \<Rightarrow>
               (case mapSliceToTreeBranch rng data' of
                  Inl p \<Rightarrow> Inl p
                | Inr branch \<Rightarrow> Inr (Some branch, None))))"

section \<open>Dump and DumpWithMetadata\<close>

definition Dump :: "yaml_lib \<Rightarrow> TreeBranch \<Rightarrow> string \<times> error option" where
  "Dump lib tree =
     (let yamlMap = treeBranchToYamlMap tree in
      case Marshal lib (GMapSlice yamlMap) of
        Inl err \<Rightarrow> ('''', Some (''Error marshaling to yaml: '' @ err))
      | Inr out \<Rightarrow> (out, None))"

text \<open>
  \<^verbatim>\<open>metadata.ToMap()\<close> belongs to the package \<^verbatim>\<open>sops\<close>; it is the parameter
  \<open>ToMap\<close>.
\<close>

definition DumpWithMetadata :: "yaml_lib \<Rightarrow> ('m \<Rightarrow> gvalue) \<Rightarrow> TreeBranch \<Rightarrow> 'm
    \<Rightarrow> string \<times> error option" where
  "DumpWithMetadata lib ToMap tree metadata =
     (let yamlMap = treeBranchToYamlMap tree;
          yamlMap = yamlMap @ [(GString ''sops'', ToMap metadata)] in
      case Marshal lib (GMapSlice yamlMap) of
        Inl err \<Rightarrow> ('''', Some (''Error marshaling to yaml: '' @ err))
      | Inr out \<Rightarrow> (out, None))"

section \<open>LoadMetadata\<close>

text \<open>
  Modelled from the spec: the types \<^verbatim>\<open>sops.Metadata\<close>, \<^verbatim>\<open>sops.KeySource\<close>,
  \<^verbatim>\<open>kms.KMSMasterKey\<close> and \<^verbatim>\<open>pgp.GPGMasterKey\<close> are declared outside the store.
  They have the fields the store assigns, which are the fields section 3 of the
  specification lists: a cloud KMS key has an ARN, an optional role, the wrapped data
  key and a creation time; a PGP key has a fingerprint, the wrapped data key and a
  creation time; a key source is a named list of keys; the metadata has the MAC, the
  time of the last modification, the unencrypted suffix, the version and the key
  sources in order.
\<close>

datatype MasterKey =
    KMSMasterKey (Arn: string) (Role: string) (EncryptedKey: string) (CreationDate: Time)
  | GPGMasterKey (Fingerprint: string) (EncryptedKey: string) (CreationDate: Time)

record KeySource =
  Name :: string
  Keys :: "MasterKey list"

record Metadata =
  MessageAuthenticationCode :: string
  LastModified :: Time
  UnencryptedSuffix :: string
  Version :: string
  KeySources :: "KeySource list"

text \<open>The zero value of \<^verbatim>\<open>sops.Metadata\<close> (\<^verbatim>\<open>var metadata sops.Metadata\<close>).\<close>

definition zeroMetadata :: Metadata where
  "zeroMetadata = \<lparr>MessageAuthenticationCode = '''', LastModified = 0,
     UnencryptedSuffix = '''', Version = '''', KeySources = []\<rparr>"

text \<open>
  The loop of \<^verbatim>\<open>kmsEntries\<close>. Every element is asserted to be a map and its fields
  \<^verbatim>\<open>arn\<close>, \<^verbatim>\<open>enc\<close> and \<^verbatim>\<open>created_at\<close> to be strings, without a check; the role is
  read with the checked form of the assertion. A creation date that does not parse
  ends the function with the key source built so far and an error.
\<close>

fun kmsEntries_loop :: "(string \<Rightarrow> error + Time) \<Rightarrow> gvalue list \<Rightarrow> KeySource
    \<Rightarrow> panic + (KeySource \<times> error option)" where
  "kmsEntries_loop timeParse [] keysource = Inr (keysource, None)"
| "kmsEntries_loop timeParse (v # rest) keysource =
     (case assertMap ''v'' v of
        Inl p \<Rightarrow> Inl p
      | Inr entry \<Rightarrow>
     (case assertString ''entry[arn]'' (mapIndex entry (GString ''arn'')) of
        Inl p \<Rightarrow> Inl p
      | Inr arn \<Rightarrow>
     (case assertString ''entry[enc]'' (mapIndex entry (GString ''enc'')) of
        Inl p \<Rightarrow> Inl p
      | Inr enc \<Rightarrow>
     (let role = (case mapIndex entry (GString ''role'') of GString r \<Rightarrow> r | _ \<Rightarrow> '''') in
      case assertString ''entry[created_at]'' (mapIndex entry (GString ''created_at'')) of
        Inl p \<Rightarrow> Inl p
      | Inr created \<Rightarrow>
     (case timeParse created of
        Inl err \<Rightarrow> Inr (keysource, Some (''Could not parse creation date: '' @ err))
      | Inr creationDate \<Rightarrow>
          kmsEntries_loop timeParse rest
            (keysource\<lparr>Keys := Keys keysource @ [KMSMasterKey arn role enc creationDate]\<rparr>))))))"

definition kmsEntries :: "(string \<Rightarrow> error + Time) \<Rightarrow> gvalue list
    \<Rightarrow> panic + (KeySource \<times> error option)" where
  "kmsEntries timeParse inp = kmsEntries_loop timeParse inp \<lparr>Name = ''kms'', Keys = []\<rparr>"

fun pgpEntries_loop :: "(string \<Rightarrow> error + Time) \<Rightarrow> gvalue list \<Rightarrow> KeySource
    \<Rightarrow> panic + (KeySource \<times> error option)" where
  "pgpEntries_loop timeParse [] keysource = Inr (keysource, None)"
| "pgpEntries_loop timeParse (v # rest) keysource =
     (case assertMap ''v'' v of
        Inl p \<Rightarrow> Inl p
      | Inr entry \<Rightarrow>
     (case assertString ''entry[fp]'' (mapIndex entry (GString ''fp'')) of
        Inl p \<Rightarrow> Inl p
      | Inr fp \<Rightarrow>
     (case assertString ''entry[enc]'' (mapIndex entry (GString ''enc'')) of
        Inl p \<Rightarrow> Inl p
      | Inr enc \<Rightarrow>
     (case assertString ''entry[created_at]'' (mapIndex entry (GString ''created_at'')) of
        Inl p \<Rightarrow> Inl p
      | Inr created \<Rightarrow>
     (case timeParse created of
        Inl err \<Rightarrow> Inr (keysource, Some (''Could not parse creation date: '' @ err))
      | Inr creationDate \<Rightarrow>
          pgpEntries_loop timeParse rest
            (keysource\<lparr>Keys := Keys keysource @ [GPGMasterKey fp enc creationDate]\<rparr>))))))"

definition pgpEntries :: "(string \<Rightarrow> error + Time) \<Rightarrow> gvalue list
    \<Rightarrow> panic + (KeySource \<times> error option)" where
  "pgpEntries timeParse inp = pgpEntries_loop timeParse inp \<lparr>Name = ''pgp'', Keys = []\<rparr>"

text \<open>
  The two blocks of \<^verbatim>\<open>LoadMetadata\<close> that read the key lists. A value that is not a
  \<^verbatim>\<open>[]interface{}\<close> is passed over; a key source is appended only when its
  function returned no error.
\<close>

definition appendKms :: "(string \<Rightarrow> error + Time) \<Rightarrow> MapSlice \<Rightarrow> Metadata \<Rightarrow> panic + Metadata" where
  "appendKms timeParse data metadata =
     (case mapIndex data (GString ''kms'') of
        GSlice k \<Rightarrow>
          (case kmsEntries timeParse k of
             Inl p \<Rightarrow> Inl p
           | Inr (ks, err) \<Rightarrow>
               Inr (if err = None then metadata\<lparr>KeySources := KeySources metadata @ [ks]\<rparr>
                    else metadata))
      | _ \<Rightarrow> Inr metadata)"

definition appendPgp :: "(string \<Rightarrow> error + Time) \<Rightarrow> MapSlice \<Rightarrow> Metadata \<Rightarrow> panic + Metadata" where
  "appendPgp timeParse data metadata =
     (case mapIndex data (GString ''pgp'') of
        GSlice pgp \<Rightarrow>
          (case pgpEntries timeParse pgp of
             Inl p \<Rightarrow> Inl p
           | Inr (ks, err) \<Rightarrow>
               Inr (if err = None then metadata\<lparr>KeySources := KeySources metadata @ [ks]\<rparr>
                    else metadata))
      | _ \<Rightarrow> Inr metadata)"

text \<open>
  The part of \<^verbatim>\<open>LoadMetadata\<close> after the second \<^verbatim>\<open>Unmarshal\<close>, on the map \<open>data\<close>
  of the metadata block.
\<close>

definition metadataFromData :: "(string \<Rightarrow> error + Time) \<Rightarrow> MapSlice
    \<Rightarrow> panic + (Metadata \<times> error option)" where
  "metadataFromData timeParse data =
     (case assertString ''data[mac]'' (mapIndex data (GString ''mac'')) of
        Inl p \<Rightarrow> Inl p
      | Inr mac \<Rightarrow>
     (let metadata = zeroMetadata\<lparr>MessageAuthenticationCode := mac\<rparr> in
      case assertString ''data[lastmodified]'' (mapIndex data (GString ''lastmodified'')) of
        Inl p \<Rightarrow> Inl p
      | Inr lm \<Rightarrow>
     (case timeParse lm of
        Inl err \<Rightarrow> Inr (metadata, Some (''Could not parse last modified date: '' @ err))
      | Inr lastModified \<Rightarrow>
     (let metadata = metadata\<lparr>LastModified := lastModified\<rparr> in
      case assertString ''data[unencrypted_suffix]''
             (mapIndex data (GString ''unencrypted_suffix'')) of
        Inl p \<Rightarrow> Inl p
      | Inr unencryptedSuffix \<Rightarrow>
     (let metadata = metadata\<lparr>UnencryptedSuffix := unencryptedSuffix\<rparr> in
      case assertString ''data[version]'' (mapIndex data (GString ''version'')) of
        Inl p \<Rightarrow> Inl p
      | Inr version \<Rightarrow>
     (let metadata = metadata\<lparr>Version := version\<rparr> in
      case appendKms timeParse data metadata of
        Inl p \<Rightarrow> Inl p
      | Inr metadata \<Rightarrow>
     (case appendPgp timeParse data metadata of
        Inl p \<Rightarrow> Inl p
      | Inr metadata \<Rightarrow> Inr (metadata, None))))))))"

definition LoadMetadata :: "yaml_lib \<Rightarrow> (string \<Rightarrow> error + Time) \<Rightarrow> string
    \<Rightarrow> panic + (Metadata \<times> error option)" where
  "LoadMetadata lib timeParse inp =
     (case Unmarshal_Map lib inp of
        Inl err \<Rightarrow> Inr (zeroMetadata, Some (''Error unmarshalling input yaml: '' @ err))
      | Inr encoded \<Rightarrow>
     (case Marshal lib (mapIndex encoded (GString ''sops'')) of
        Inl err \<Rightarrow> Inr (zeroMetadata, Some err)
      | Inr sopsYaml \<Rightarrow>
     (case Unmarshal_Map lib sopsYaml of
        Inl err \<Rightarrow> Inr (zeroMetadata, Some err)
      | Inr data \<Rightarrow> metadataFromData timeParse data)))"

section \<open>Predicates of the specification\<close>

text \<open>The dynamic type of a value is \<^verbatim>\<open>string\<close>.\<close>

fun isString :: "gvalue \<Rightarrow> bool" where
  "isString (GString s) = True"
| "isString v = False"

text \<open>
  A tree value as the specification describes it: a scalar, a nested
  \<^verbatim>\<open>TreeBranch\<close> whose values are tree values, or a list of tree values. The keys of
  a branch are strings by their type.
\<close>

fun isTreeValue :: "gvalue \<Rightarrow> bool"
  and isTreeBranch :: "TreeBranch \<Rightarrow> bool"
  and isTreeValues :: "gvalue list \<Rightarrow> bool"
where
  "isTreeValue (GTreeBranch b) = isTreeBranch b"
| "isTreeValue (GSlice xs) = isTreeValues xs"
| "isTreeValue (GMapSlice m) = False"
| "isTreeValue (GMap m) = False"
| "isTreeValue GNil = True"
| "isTreeValue (GString s) = True"
| "isTreeValue (GInt i) = True"
| "isTreeValue (GFloat f) = True"
| "isTreeValue (GBool b) = True"
| "isTreeBranch [] = True"
| "isTreeBranch (item # rest) = (isTreeValue (snd item) \<and> isTreeBranch rest)"
| "isTreeValues [] = True"
| "isTreeValues (v # rest) = (isTreeValue v \<and> isTreeValues rest)"

text \<open>
  Every key of every mapping of a YAML value is a string, at every depth: in the
  items of a \<^verbatim>\<open>MapSlice\<close>, in the entries of a plain map, and in the elements of a
  sequence.
\<close>

fun stringKeys :: "gvalue \<Rightarrow> bool"
  and stringKeysItems :: "MapSlice \<Rightarrow> bool"
  and stringKeysList :: "gvalue list \<Rightarrow> bool"
where
  "stringKeys (GMapSlice m) = stringKeysItems m"
| "stringKeys (GMap m) = stringKeysItems m"
| "stringKeys (GSlice xs) = stringKeysList xs"
| "stringKeys GNil = True"
| "stringKeys (GString s) = True"
| "stringKeys (GInt i) = True"
| "stringKeys (GFloat f) = True"
| "stringKeys (GBool b) = True"
| "stringKeys (GTreeBranch b) = True"
| "stringKeysItems [] = True"
| "stringKeysItems (item # rest) =
     (isString (fst item) \<and> stringKeys (snd item) \<and> stringKeysItems rest)"
| "stringKeysList [] = True"
| "stringKeysList (v # rest) = (stringKeys v \<and> stringKeysList rest)"



text \<open>An item of the top-level mapping that is not the metadata block.\<close>

definition notSops :: "MapItem \<Rightarrow> bool" where
  "notSops item = (fst item \<noteq> GString ''sops'')"

text \<open>
  The metadata block \<open>data\<close> holds \<^verbatim>\<open>mac\<close>, \<^verbatim>\<open>lastmodified\<close>,
  \<^verbatim>\<open>unencrypted_suffix\<close> and \<^verbatim>\<open>version\<close> as strings.
\<close>

definition hasMetadataFields :: "MapSlice \<Rightarrow> bool" where
  "hasMetadataFields data =
     (isString (mapIndex data (GString ''mac''))
      \<and> isString (mapIndex data (GString ''lastmodified''))
      \<and> isString (mapIndex data (GString ''unencrypted_suffix''))
      \<and> isString (mapIndex data (GString ''version'')))"

text \<open>
  A key entry that has its required scalar fields: a map with \<^verbatim>\<open>arn\<close> (for a PGP
  key \<^verbatim>\<open>fp\<close>), \<^verbatim>\<open>enc\<close> and \<^verbatim>\<open>created_at\<close> as strings.
\<close>

fun kmsEntryFields :: "gvalue \<Rightarrow> bool" where
  "kmsEntryFields (GMap entry) =
     (isString (mapIndex entry (GString ''arn''))
      \<and> isString (mapIndex entry (GString ''enc''))
      \<and> isString (mapIndex entry (GString ''created_at'')))"
| "kmsEntryFields v = False"

fun pgpEntryFields :: "gvalue \<Rightarrow> bool" where
  "pgpEntryFields (GMap entry) =
     (isString (mapIndex entry (GString ''fp''))
      \<and> isString (mapIndex entry (GString ''enc''))
      \<and> isString (mapIndex entry (GString ''created_at'')))"
| "pgpEntryFields v = False"

text \<open>The string of a field of a key entry (empty when the field is no string).\<close>

fun entryField :: "gvalue \<Rightarrow> string \<Rightarrow> string" where
  "entryField (GMap entry) name =
     (case mapIndex entry (GString name) of GString s \<Rightarrow> s | _ \<Rightarrow> '''')"
| "entryField v name = ''''"

text \<open>The \<^verbatim>\<open>created_at\<close> field of a key entry parses as a time.\<close>

definition entryDateParses :: "(string \<Rightarrow> error + Time) \<Rightarrow> gvalue \<Rightarrow> bool" where
  "entryDateParses timeParse v = (\<not> isl (timeParse (entryField v ''created_at'')))"

text \<open>The master key that a key entry with its fields and a date that parses describes.\<close>

definition kmsKeyOf :: "(string \<Rightarrow> error + Time) \<Rightarrow> gvalue \<Rightarrow> MasterKey" where
  "kmsKeyOf timeParse v =
     KMSMasterKey (entryField v ''arn'') (entryField v ''role'') (entryField v ''enc'')
       (projr (timeParse (entryField v ''created_at'')))"

definition pgpKeyOf :: "(string \<Rightarrow> error + Time) \<Rightarrow> gvalue \<Rightarrow> MasterKey" where
  "pgpKeyOf timeParse v =
     GPGMasterKey (entryField v ''fp'') (entryField v ''enc'')
       (projr (timeParse (entryField v ''created_at'')))"

text \<open>
  The key sources of one kind that the store builds from the value \<open>v\<close> stored under
  the name of the kind: one source with a key per entry when \<open>v\<close> is a list whose
  dates all parse, and no source otherwise.
\<close>

definition keySourceOf :: "string \<Rightarrow> (gvalue \<Rightarrow> MasterKey) \<Rightarrow> (gvalue \<Rightarrow> bool)
    \<Rightarrow> gvalue \<Rightarrow> KeySource list" where
  "keySourceOf name keyOf dateParses v =
     (case v of
        GSlice entries \<Rightarrow>
          (if list_all dateParses entries then [\<lparr>Name = name, Keys = map keyOf entries\<rparr>]
           else [])
      | _ \<Rightarrow> [])"

text \<open>
  The value stored under the name of a kind is no list, or a list of entries that have
  their required fields.
\<close>

definition entriesHaveFields :: "(gvalue \<Rightarrow> bool) \<Rightarrow> gvalue \<Rightarrow> bool" where
  "entriesHaveFields hasFields v =
     (case v of GSlice entries \<Rightarrow> list_all hasFields entries | _ \<Rightarrow> True)"

section \<open>Example documents\<close>

text \<open>
  An instance of the library interface for the examples below. It decodes and encodes
  the listed documents as the YAML library does and answers every other text with an
  error. Decoding into a \<^verbatim>\<open>MapSlice\<close> presents every mapping, at every depth, as a
  \<^verbatim>\<open>MapSlice\<close>; decoding into a map presents every mapping as a plain map.
  \<open>exampleTime\<close> accepts the one timestamp of the examples, which is in the format of
  \<^verbatim>\<open>sops.DateFormat\<close>.
\<close>

definition exampleTime :: "string \<Rightarrow> error + Time" where
  "exampleTime s =
     (if s = ''2016-08-01T00:00:00Z'' then Inr 63605606400
      else Inl (''parsing time '' @ s))"

definition nl :: string where
  "nl = [CHR 0x0A]"

definition kmsEntryGood :: gvalue where
  "kmsEntryGood = GMap [(GString ''arn'', GString ''k1''),
     (GString ''created_at'', GString ''2016-08-01T00:00:00Z''),
     (GString ''enc'', GString ''e1'')]"

definition kmsEntryBadDate :: gvalue where
  "kmsEntryBadDate = GMap [(GString ''arn'', GString ''k2''),
     (GString ''created_at'', GString ''yesterday''),
     (GString ''enc'', GString ''e2'')]"

definition kmsEntryNoArn :: gvalue where
  "kmsEntryNoArn = GMap [(GString ''created_at'', GString ''2016-08-01T00:00:00Z''),
     (GString ''enc'', GString ''e2'')]"

definition pgpEntryGood :: gvalue where
  "pgpEntryGood = GMap [(GString ''created_at'', GString ''2016-08-01T00:00:00Z''),
     (GString ''enc'', GString ''e3''),
     (GString ''fp'', GString ''f1'')]"

text \<open>The metadata block with the given key lists, and its four scalar fields.\<close>

definition blockWith :: "gvalue list \<Rightarrow> gvalue list \<Rightarrow> MapSlice" where
  "blockWith kmsList pgpList =
     [(GString ''kms'', GSlice kmsList),
      (GString ''lastmodified'', GString ''2016-08-01T00:00:00Z''),
      (GString ''mac'', GString ''m''),
      (GString ''pgp'', GSlice pgpList),
      (GString ''unencrypted_suffix'', GString ''_unencrypted''),
      (GString ''version'', GString ''v1'')]"

definition blockGood :: MapSlice where
  "blockGood = blockWith [kmsEntryGood] [pgpEntryGood]"

definition blockBadDate :: MapSlice where
  "blockBadDate = blockWith [kmsEntryGood, kmsEntryBadDate] []"

definition blockNoArn :: MapSlice where
  "blockNoArn = blockWith [kmsEntryGood, kmsEntryNoArn] []"

text \<open>A block without \<^verbatim>\<open>unencrypted_suffix\<close> and \<^verbatim>\<open>version\<close>, with a date that does not parse.\<close>

definition blockNoVersion :: MapSlice where
  "blockNoVersion = [(GString ''lastmodified'', GString ''yesterday''),
     (GString ''mac'', GString ''m'')]"

text \<open>A block without \<^verbatim>\<open>mac\<close>.\<close>

definition blockNoMac :: MapSlice where
  "blockNoMac = [(GString ''lastmodified'', GString ''2016-08-01T00:00:00Z''),
     (GString ''unencrypted_suffix'', GString ''_unencrypted''),
     (GString ''version'', GString ''v1'')]"

definition textGood :: string where
  "textGood = ''kms:'' @ nl @ ''- arn: k1'' @ nl @ ''  created_at: 2016-08-01T00:00:00Z'' @ nl
     @ ''  enc: e1'' @ nl @ ''lastmodified: 2016-08-01T00:00:00Z'' @ nl @ ''mac: m'' @ nl
     @ ''pgp:'' @ nl @ ''- created_at: 2016-08-01T00:00:00Z'' @ nl @ ''  enc: e3'' @ nl
     @ ''  fp: f1'' @ nl @ ''unencrypted_suffix: _unencrypted'' @ nl @ ''version: v1'' @ nl"

definition textBadDate :: string where
  "textBadDate = ''kms:'' @ nl @ ''- arn: k1'' @ nl @ ''  created_at: 2016-08-01T00:00:00Z'' @ nl
     @ ''  enc: e1'' @ nl @ ''- arn: k2'' @ nl @ ''  created_at: yesterday'' @ nl
     @ ''  enc: e2'' @ nl @ ''lastmodified: 2016-08-01T00:00:00Z'' @ nl @ ''mac: m'' @ nl
     @ ''pgp: []'' @ nl @ ''unencrypted_suffix: _unencrypted'' @ nl @ ''version: v1'' @ nl"

definition textNoArn :: string where
  "textNoArn = ''kms:'' @ nl @ ''- arn: k1'' @ nl @ ''  created_at: 2016-08-01T00:00:00Z'' @ nl
     @ ''  enc: e1'' @ nl @ ''- created_at: 2016-08-01T00:00:00Z'' @ nl
     @ ''  enc: e2'' @ nl @ ''lastmodified: 2016-08-01T00:00:00Z'' @ nl @ ''mac: m'' @ nl
     @ ''pgp: []'' @ nl @ ''unencrypted_suffix: _unencrypted'' @ nl @ ''version: v1'' @ nl"

definition textNoVersion :: string where
  "textNoVersion = ''lastmodified: yesterday'' @ nl @ ''mac: m'' @ nl"

definition textNoMac :: string where
  "textNoMac = ''lastmodified: 2016-08-01T00:00:00Z'' @ nl
     @ ''unencrypted_suffix: _unencrypted'' @ nl @ ''version: v1'' @ nl"

text \<open>The documents: a tree with one or two items, followed by a metadata block.\<close>

definition docGood :: string where
  "docGood = ''a: 1'' @ nl @ ''sops:'' @ nl @ ''  kms:'' @ nl @ ''  - arn: k1'' @ nl
     @ ''    created_at: 2016-08-01T00:00:00Z'' @ nl @ ''    enc: e1'' @ nl
     @ ''  lastmodified: 2016-08-01T00:00:00Z'' @ nl @ ''  mac: m'' @ nl @ ''  pgp:'' @ nl
     @ ''  - created_at: 2016-08-01T00:00:00Z'' @ nl @ ''    enc: e3'' @ nl @ ''    fp: f1'' @ nl
     @ ''  unencrypted_suffix: _unencrypted'' @ nl @ ''  version: v1'' @ nl"

definition docGoodOther :: string where
  "docGoodOther = ''b: hello'' @ nl @ ''c: true'' @ nl @ drop 5 docGood"

definition docBadDate :: string where
  "docBadDate = ''a: 1'' @ nl @ ''sops:'' @ nl @ ''  kms:'' @ nl @ ''  - arn: k1'' @ nl
     @ ''    created_at: 2016-08-01T00:00:00Z'' @ nl @ ''    enc: e1'' @ nl
     @ ''  - arn: k2'' @ nl @ ''    created_at: yesterday'' @ nl @ ''    enc: e2'' @ nl
     @ ''  lastmodified: 2016-08-01T00:00:00Z'' @ nl @ ''  mac: m'' @ nl @ ''  pgp: []'' @ nl
     @ ''  unencrypted_suffix: _unencrypted'' @ nl @ ''  version: v1'' @ nl"

definition docNoArn :: string where
  "docNoArn = ''a: 1'' @ nl @ ''sops:'' @ nl @ ''  kms:'' @ nl @ ''  - arn: k1'' @ nl
     @ ''    created_at: 2016-08-01T00:00:00Z'' @ nl @ ''    enc: e1'' @ nl
     @ ''  - created_at: 2016-08-01T00:00:00Z'' @ nl @ ''    enc: e2'' @ nl
     @ ''  lastmodified: 2016-08-01T00:00:00Z'' @ nl @ ''  mac: m'' @ nl @ ''  pgp: []'' @ nl
     @ ''  unencrypted_suffix: _unencrypted'' @ nl @ ''  version: v1'' @ nl"

definition docNoVersion :: string where
  "docNoVersion = ''a: 1'' @ nl @ ''sops: {lastmodified: yesterday, mac: m}'' @ nl"

definition docNoMac :: string where
  "docNoMac = ''a: 1'' @ nl @ ''sops:'' @ nl @ ''  lastmodified: 2016-08-01T00:00:00Z'' @ nl
     @ ''  unencrypted_suffix: _unencrypted'' @ nl @ ''  version: v1'' @ nl"

text \<open>Documents for the tree: the block first, an integer key, a nested mapping, broken text.\<close>

definition docSopsFirst :: string where
  "docSopsFirst = ''sops: {mac: m}'' @ nl @ ''a: 1'' @ nl @ ''b: [x, z]'' @ nl"

definition docIntKey :: string where
  "docIntKey = ''1: x'' @ nl"

definition docNested :: string where
  "docNested = ''a:'' @ nl @ ''  x: 1'' @ nl @ ''  z: 2'' @ nl @ ''b: [p, q]'' @ nl"

definition docBroken :: string where
  "docBroken = ''a: [''"

text \<open>A document whose metadata block has an integer key.\<close>

definition docSopsIntKey :: string where
  "docSopsIntKey = ''a: 1'' @ nl @ ''sops:'' @ nl @ ''  1: x'' @ nl"

text \<open>The text of a tree with one item and the block \<open>blockNoVersion\<close>, as it is dumped.\<close>

definition dumpNoVersion :: string where
  "dumpNoVersion = ''a: 1'' @ nl @ ''sops:'' @ nl @ ''  lastmodified: yesterday'' @ nl
     @ ''  mac: m'' @ nl"

definition exampleMaps :: "(string \<times> MapSlice) list" where
  "exampleMaps =
     [(docGood, [(GString ''a'', GInt 1), (GString ''sops'', GMap blockGood)]),
      (docGoodOther, [(GString ''b'', GString ''hello''), (GString ''c'', GBool True),
         (GString ''sops'', GMap blockGood)]),
      (docBadDate, [(GString ''a'', GInt 1), (GString ''sops'', GMap blockBadDate)]),
      (docNoArn, [(GString ''a'', GInt 1), (GString ''sops'', GMap blockNoArn)]),
      (docNoVersion, [(GString ''a'', GInt 1), (GString ''sops'', GMap blockNoVersion)]),
      (docNoMac, [(GString ''a'', GInt 1), (GString ''sops'', GMap blockNoMac)]),
      (textGood, blockGood),
      (textBadDate, blockBadDate),
      (textNoArn, blockNoArn),
      (textNoVersion, blockNoVersion),
      (textNoMac, blockNoMac)]"

definition exampleTexts :: "(gvalue \<times> string) list" where
  "exampleTexts =
     [(GMap blockGood, textGood),
      (GMap blockBadDate, textBadDate),
      (GMap blockNoArn, textNoArn),
      (GMap blockNoVersion, textNoVersion),
      (GMap blockNoMac, textNoMac),
      (GMapSlice [(GString ''a'', GInt 1)], ''a: 1'' @ nl),
      (GMapSlice [(GString ''a'', GInt 1), (GString ''sops'', GMap blockNoVersion)],
         dumpNoVersion)]"

definition exampleSlices :: "(string \<times> MapSlice) list" where
  "exampleSlices =
     [(docSopsFirst, [(GString ''sops'', GMapSlice [(GString ''mac'', GString ''m'')]),
         (GString ''a'', GInt 1),
         (GString ''b'', GSlice [GString ''x'', GString ''z''])]),
      (docIntKey, [(GInt 1, GString ''x'')]),
      (docSopsIntKey, [(GString ''a'', GInt 1),
         (GString ''sops'', GMapSlice [(GInt 1, GString ''x'')])]),
      (docNested, [(GString ''a'', GMapSlice [(GString ''x'', GInt 1), (GString ''z'', GInt 2)]),
         (GString ''b'', GSlice [GString ''p'', GString ''q''])])]"

definition decodeFrom :: "(string \<times> MapSlice) list \<Rightarrow> string \<Rightarrow> error + MapSlice" where
  "decodeFrom table inp =
     (case map_of table inp of
        Some v \<Rightarrow> Inr v
      | None \<Rightarrow> Inl ''yaml: did not find expected node content'')"

definition encodeFrom :: "(gvalue \<times> string) list \<Rightarrow> gvalue \<Rightarrow> error + string" where
  "encodeFrom table v =
     (case map_of table v of
        Some s \<Rightarrow> Inr s
      | None \<Rightarrow> Inl ''yaml: cannot marshal'')"

definition exampleYaml :: yaml_lib where
  "exampleYaml = \<lparr>Unmarshal_MapSlice = decodeFrom exampleSlices,
     Unmarshal_Map = decodeFrom exampleMaps,
     Marshal = encodeFrom exampleTexts\<rparr>"

text \<open>A tree with scalars of every type, a nested branch and a list.\<close>

definition exampleTree :: TreeBranch where
  "exampleTree =
     [(''name'', GString ''prod-db''),
      (''replicas'', GInt 3),
      (''limits'', GTreeBranch [(''cpu'', GFloat 0x3FE0000000000000), (''burst'', GBool True)]),
      (''hosts'', GSlice [GString ''a'', GTreeBranch [(''port'', GInt 80)], GSlice [GNil]])]"

section \<open>The round trip between the tree and YAML values\<close>

text \<open>
  The conversion to the tree leaves a tree value as it is: its type switch has no
  case for a \<^verbatim>\<open>TreeBranch\<close>, and a list of tree values is rebuilt element by element.
\<close>

lemma tree_value_unchanged:
  "isTreeValue v \<Longrightarrow> yamlValueToTreeValue rng v = Inr v"
  "isTreeBranch b \<Longrightarrow>
     list_all (\<lambda>item. yamlValueToTreeValue rng (snd item) = Inr (snd item)) b"
  "isTreeValues xs \<Longrightarrow> yamlSliceToTreeValue rng xs = Inr xs"
  by (induction v and b and xs rule: isTreeValue_isTreeBranch_isTreeValues.induct) simp_all

lemma tree_yaml_tree:
  "isTreeValue v \<Longrightarrow> yamlValueToTreeValue rng (treeValueToYamlValue v) = Inr v"
  "isTreeBranch b \<Longrightarrow> mapSliceToTreeBranch rng (treeBranchToYamlMap b) = Inr b"
  by (induction v and b rule: treeValueToYamlValue_treeBranchToYamlMap.induct)
     (simp_all add: tree_value_unchanged)

lemma treeBranchToYamlMap_map:
  "treeBranchToYamlMap b =
     map (\<lambda>item. (GString (fst item), treeValueToYamlValue (snd item))) b"
  by (induction b) simp_all

text \<open>
  Claim C5. For every tree branch whose values are scalars, nested branches or lists
  of such values, \<^verbatim>\<open>treeBranchToYamlMap\<close> followed by \<^verbatim>\<open>mapSliceToTreeBranch\<close>
  returns, without a panic, a branch equal to the original: the same keys, values,
  types, order and nesting.
\<close>

theorem C5_round_trip:
  "isTreeBranch tree \<Longrightarrow> mapSliceToTreeBranch rng (treeBranchToYamlMap tree) = Inr tree"
  by (rule tree_yaml_tree(2))

theorem C5_round_trip_witness:
  "isTreeBranch exampleTree
   \<and> mapSliceToTreeBranch rev (treeBranchToYamlMap exampleTree) = Inr exampleTree"
  using C5_round_trip [of exampleTree rev] by (simp add: exampleTree_def)

section \<open>Text that the parser rejects\<close>

text \<open>
  Claim C6. When the YAML parser rejects the input text, \<^verbatim>\<open>Load\<close> returns the nil
  tree with an error, and \<^verbatim>\<open>LoadMetadata\<close> returns an error with the zero metadata:
  the failure of the parser ends the call, and nothing has been built.
\<close>

theorem C6_parse_error:
  "(Unmarshal_MapSlice lib inp = Inl err \<longrightarrow>
      Load lib rng inp = Inr (None, Some (''Error unmarshaling input YAML: '' @ err)))
   \<and> (Unmarshal_Map lib inp = Inl err' \<longrightarrow>
      LoadMetadata lib timeParse inp
        = Inr (zeroMetadata, Some (''Error unmarshalling input yaml: '' @ err')))"
  by (simp add: Load_def LoadMetadata_def)

lemma docBroken_rejected:
  "Unmarshal_MapSlice exampleYaml docBroken = Inl ''yaml: did not find expected node content''"
  "Unmarshal_Map exampleYaml docBroken = Inl ''yaml: did not find expected node content''"
  by (simp_all add: exampleYaml_def decodeFrom_def exampleSlices_def exampleMaps_def
      docBroken_def docSopsFirst_def docIntKey_def docSopsIntKey_def docNested_def docGood_def
      docGoodOther_def
      docBadDate_def docNoArn_def docNoVersion_def docNoMac_def textGood_def textBadDate_def
      textNoArn_def textNoVersion_def textNoMac_def nl_def)

theorem C6_parse_error_witness:
  "Unmarshal_MapSlice exampleYaml docBroken = Inl ''yaml: did not find expected node content''
   \<and> Unmarshal_Map exampleYaml docBroken = Inl ''yaml: did not find expected node content''
   \<and> Load exampleYaml id docBroken
       = Inr (None, Some ''Error unmarshaling input YAML: yaml: did not find expected node content'')
   \<and> LoadMetadata exampleYaml exampleTime docBroken
       = Inr (zeroMetadata,
              Some ''Error unmarshalling input yaml: yaml: did not find expected node content'')"
  using C6_parse_error [of exampleYaml docBroken
      "''yaml: did not find expected node content''" id
      "''yaml: did not find expected node content''" exampleTime]
  by (simp add: docBroken_rejected)

section \<open>The example documents, evaluated\<close>

lemmas example_defs = exampleYaml_def decodeFrom_def encodeFrom_def
  exampleSlices_def exampleMaps_def exampleTexts_def docSopsIntKey_def
  docBroken_def docSopsFirst_def docIntKey_def docNested_def docGood_def docGoodOther_def
  docBadDate_def docNoArn_def docNoVersion_def docNoMac_def textGood_def textBadDate_def
  textNoArn_def textNoVersion_def textNoMac_def dumpNoVersion_def nl_def

lemmas block_defs = blockGood_def blockBadDate_def blockNoArn_def blockNoVersion_def
  blockNoMac_def blockWith_def kmsEntryGood_def kmsEntryBadDate_def kmsEntryNoArn_def
  pgpEntryGood_def

lemmas metadata_defs = LoadMetadata_def metadataFromData_def appendKms_def appendPgp_def
  kmsEntries_def pgpEntries_def mapIndex_def zeroMetadata_def exampleTime_def

lemma docGood_decoded:
  "Unmarshal_Map exampleYaml docGood
     = Inr [(GString ''a'', GInt 1), (GString ''sops'', GMap blockGood)]"
  by (simp add: example_defs)

lemma docGoodOther_decoded:
  "Unmarshal_Map exampleYaml docGoodOther
     = Inr [(GString ''b'', GString ''hello''), (GString ''c'', GBool True),
            (GString ''sops'', GMap blockGood)]"
  by (simp add: example_defs)

lemma textGood_chain:
  "Marshal exampleYaml (GMap blockGood) = Inr textGood"
  "Unmarshal_Map exampleYaml textGood = Inr blockGood"
  by (simp_all add: example_defs block_defs)

lemma docGood_metadata:
  "LoadMetadata exampleYaml exampleTime docGood
     = Inr (\<lparr>MessageAuthenticationCode = ''m'', LastModified = 63605606400,
             UnencryptedSuffix = ''_unencrypted'', Version = ''v1'',
             KeySources =
               [\<lparr>Name = ''kms'', Keys = [KMSMasterKey ''k1'' '''' ''e1'' 63605606400]\<rparr>,
                \<lparr>Name = ''pgp'', Keys = [GPGMasterKey ''f1'' ''e3'' 63605606400]\<rparr>]\<rparr>,
            None)"
  by (simp add: LoadMetadata_def docGood_decoded mapIndex_def textGood_chain)
     (simp add: metadata_defs block_defs)

section \<open>The metadata depends on the metadata block only\<close>

text \<open>
  Claim C7. \<^verbatim>\<open>LoadMetadata\<close> depends on the metadata block only: for two documents
  that the parser accepts and whose values under the top-level key \<^verbatim>\<open>sops\<close> are
  equal, it has the same outcome, whatever else the two documents hold: the same
  metadata (MAC, times, suffix, version and key sources) and the same error, or the
  same panic.
\<close>

theorem C7_metadata_only:
  "Unmarshal_Map lib inp1 = Inr encoded1 \<Longrightarrow> Unmarshal_Map lib inp2 = Inr encoded2 \<Longrightarrow>
   mapIndex encoded1 (GString ''sops'') = mapIndex encoded2 (GString ''sops'') \<Longrightarrow>
   LoadMetadata lib timeParse inp1 = LoadMetadata lib timeParse inp2"
  by (simp add: LoadMetadata_def)

theorem C7_metadata_only_witness:
  "Unmarshal_Map exampleYaml docGood
     = Inr [(GString ''a'', GInt 1), (GString ''sops'', GMap blockGood)]
   \<and> Unmarshal_Map exampleYaml docGoodOther
       = Inr [(GString ''b'', GString ''hello''), (GString ''c'', GBool True),
              (GString ''sops'', GMap blockGood)]
   \<and> docGood \<noteq> docGoodOther
   \<and> LoadMetadata exampleYaml exampleTime docGood
       = LoadMetadata exampleYaml exampleTime docGoodOther"
  using C7_metadata_only [OF docGood_decoded docGoodOther_decoded, of exampleTime]
  by (simp add: docGood_decoded docGoodOther_decoded mapIndex_def)
     (simp add: docGood_def docGoodOther_def nl_def)

section \<open>DumpWithMetadata\<close>

text \<open>
  Claim C4. For every tree branch and metadata, the document that
  \<^verbatim>\<open>DumpWithMetadata\<close> hands to the serializer is the ordered mapping of the tree's
  items, in the order of the branch, followed by exactly one more item with the key
  \<^verbatim>\<open>sops\<close> whose value is the metadata envelope. The items before it are the
  document that \<^verbatim>\<open>Dump\<close> serializes: one item per tree item, with the same key, and
  with the value that \<^verbatim>\<open>treeValueToYamlValue\<close> gives; converted back they are the
  tree. Adding the metadata block alters and reorders no tree item.
\<close>

theorem C4_dump_with_metadata:
  "\<exists>yamlMap.
     DumpWithMetadata lib ToMap tree metadata =
       (case Marshal lib (GMapSlice (yamlMap @ [(GString ''sops'', ToMap metadata)])) of
          Inl err \<Rightarrow> ('''', Some (''Error marshaling to yaml: '' @ err))
        | Inr out \<Rightarrow> (out, None))
     \<and> Dump lib tree =
       (case Marshal lib (GMapSlice yamlMap) of
          Inl err \<Rightarrow> ('''', Some (''Error marshaling to yaml: '' @ err))
        | Inr out \<Rightarrow> (out, None))
     \<and> length yamlMap = length tree
     \<and> map fst yamlMap = map (\<lambda>item. GString (fst item)) tree
     \<and> map snd yamlMap = map (\<lambda>item. treeValueToYamlValue (snd item)) tree
     \<and> (isTreeBranch tree \<longrightarrow> mapSliceToTreeBranch rng yamlMap = Inr tree)"
proof -
  let ?m = "treeBranchToYamlMap tree"
  have dump_md: "DumpWithMetadata lib ToMap tree metadata =
       (case Marshal lib (GMapSlice (?m @ [(GString ''sops'', ToMap metadata)])) of
          Inl err \<Rightarrow> ('''', Some (''Error marshaling to yaml: '' @ err))
        | Inr out \<Rightarrow> (out, None))"
    by (simp add: DumpWithMetadata_def)
  have dump: "Dump lib tree =
       (case Marshal lib (GMapSlice ?m) of
          Inl err \<Rightarrow> ('''', Some (''Error marshaling to yaml: '' @ err))
        | Inr out \<Rightarrow> (out, None))"
    by (simp add: Dump_def)
  have len: "length ?m = length tree"
    by (simp add: treeBranchToYamlMap_map)
  have keys: "map fst ?m = map (\<lambda>item. GString (fst item)) tree"
    by (simp add: treeBranchToYamlMap_map comp_def)
  have vals: "map snd ?m = map (\<lambda>item. treeValueToYamlValue (snd item)) tree"
    by (simp add: treeBranchToYamlMap_map comp_def)
  have round: "isTreeBranch tree \<longrightarrow> mapSliceToTreeBranch rng ?m = Inr tree"
    by (simp add: tree_yaml_tree(2))
  from dump_md dump len keys vals round show ?thesis
    by (intro exI [of _ ?m] conjI)
qed

theorem C4_dump_with_metadata_witness:
  "DumpWithMetadata exampleYaml (\<lambda>u::unit. GMap blockNoVersion) [(''a'', GInt 1)] ()
     = (dumpNoVersion, None)
   \<and> Dump exampleYaml [(''a'', GInt 1)] = (''a: 1'' @ nl, None)
   \<and> isTreeBranch [(''a'', GInt 1)]
   \<and> mapSliceToTreeBranch id (treeBranchToYamlMap [(''a'', GInt 1)]) = Inr [(''a'', GInt 1)]"
  using C4_dump_with_metadata [of exampleYaml "\<lambda>u::unit. GMap blockNoVersion"
      "[(''a'', GInt 1)]" "()" id]
  by (simp add: DumpWithMetadata_def Dump_def example_defs block_defs)

section \<open>The unchecked key assertions\<close>

text \<open>
  The conversion to the tree panics exactly when some key is no string: every
  mapping of the value is visited, and the only failure is the assertion on a key.
\<close>

lemma assertString_Inr: "assertString site v = Inr s \<longleftrightarrow> v = GString s"
  by (cases v) auto

lemma assertString_Inl:
  "assertString site v = Inl p \<longleftrightarrow> \<not> isString v \<and> p = InterfaceConversion site"
  by (cases v) auto

lemma conversion_panics_iff:
  "isl (yamlValueToTreeValue rng v) \<longleftrightarrow> \<not> stringKeys v"
  "isl (mapSliceToTreeBranch rng m) \<longleftrightarrow> \<not> stringKeysItems m"
  "isl (yamlSliceToTreeValue rng xs) \<longleftrightarrow> \<not> stringKeysList xs"
  "isl (yamlMapToTreeBranch rng m') \<longleftrightarrow> \<not> stringKeysItems m'"
  "isl (yamlMapItems rng m'') \<longleftrightarrow> \<not> stringKeysItems m''"
  by (induction rng v and rng m and rng xs and rng m' and rng m''
      rule: yamlValueToTreeValue_mapSliceToTreeBranch_yamlSliceToTreeValue_yamlMapToTreeBranch_yamlMapItems.induct)
     (auto split: sum.splits simp: assertString_Inr assertString_Inl, blast+)

lemma returns_iff_not_isl: "(\<exists>y. x = Inr y) \<longleftrightarrow> \<not> isl x"
  by (cases x) auto

lemma stringKeysItems_all:
  "stringKeysItems m \<longleftrightarrow> (\<forall>e \<in> set m. isString (fst e) \<and> stringKeys (snd e))"
  by (induction m) auto

text \<open>
  The loop of \<^verbatim>\<open>Load\<close> only drops items, and its only failure is the slice
  expression.
\<close>

lemma Load_loop_set:
  "Load_loop arr n i l = Inr r \<Longrightarrow> set r \<subseteq> set arr"
proof (induction arr n i l rule: Load_loop.induct)
  case (1 arr n i l)
  show ?case
  proof (cases "i < n")
    case False
    with "1.prems" show ?thesis
      by (auto simp: Load_loop.simps [of arr n i l] dest: in_set_takeD)
  next
    case True
    show ?thesis
    proof (cases "fst (arr ! i) = GString ''sops''")
      case False
      with True "1.prems" "1.IH"(2) show ?thesis
        by (simp add: Load_loop.simps [of arr n i l])
    next
      case sops: True
      show ?thesis
      proof (cases "i + 1 \<le> l")
        case False
        with True sops "1.prems" show ?thesis
          by (simp add: Load_loop.simps [of arr n i l])
      next
        case le: True
        let ?arr = "take i arr @ drop (i + 1) (take l arr) @ drop (l - 1) arr"
        from True sops le "1.prems" have "Load_loop ?arr n (i + 1) (l - 1) = Inr r"
          by (simp add: Load_loop.simps [of arr n i l])
        with "1.IH"(1) True sops le have "set r \<subseteq> set ?arr" by simp
        moreover have "set ?arr \<subseteq> set arr"
          by (auto dest: in_set_takeD in_set_dropD)
        ultimately show ?thesis by blast
      qed
    qed
  qed
qed

lemma Load_loop_panic:
  "Load_loop arr n i l = Inl p \<Longrightarrow> p = SliceBoundsOutOfRange"
  by (induction arr n i l rule: Load_loop.induct)
     (subst (asm) Load_loop.simps, auto split: if_splits)

lemma Load_not_InterfaceConversion:
  assumes "Unmarshal_MapSlice lib inp = Inr data" and "stringKeysItems data"
  shows "Load lib rng inp \<noteq> Inl (InterfaceConversion site)"
proof (cases "Load_loop data (length data) 0 (length data)")
  case (Inl p)
  with assms(1) Load_loop_panic [OF Inl] show ?thesis
    by (simp add: Load_def)
next
  case (Inr r)
  from Load_loop_set [OF Inr] assms(2) have "stringKeysItems r"
    by (auto simp: stringKeysItems_all)
  then have "\<not> isl (mapSliceToTreeBranch rng r)"
    by (simp add: conversion_panics_iff)
  with assms(1) Inr show ?thesis
    by (auto simp: Load_def split: sum.splits)
qed

lemma docIntKey_decoded:
  "Unmarshal_MapSlice exampleYaml docIntKey = Inr [(GInt 1, GString ''x'')]"
  by (simp add: example_defs)

lemma docNested_decoded:
  "Unmarshal_MapSlice exampleYaml docNested
     = Inr [(GString ''a'', GMapSlice [(GString ''x'', GInt 1), (GString ''z'', GInt 2)]),
            (GString ''b'', GSlice [GString ''p'', GString ''q''])]"
  by (simp add: example_defs)

text \<open>The four ways of one step of the loop, for evaluating it on a given slice.\<close>

lemma Load_loop_done: "\<not> i < n \<Longrightarrow> Load_loop arr n i l = Inr (take l arr)"
  by (simp add: Load_loop.simps [of arr n i l])

lemma Load_loop_keep:
  "i < n \<Longrightarrow> fst (arr ! i) \<noteq> GString ''sops'' \<Longrightarrow>
   Load_loop arr n i l = Load_loop arr n (Suc i) l"
  by (simp add: Load_loop.simps [of arr n i l])

lemma Load_loop_remove:
  "i < n \<Longrightarrow> fst (arr ! i) = GString ''sops'' \<Longrightarrow> Suc i \<le> l \<Longrightarrow>
   Load_loop arr n i l =
     Load_loop (take i arr @ drop (Suc i) (take l arr) @ drop (l - 1) arr) n (Suc i) (l - 1)"
  by (simp add: Load_loop.simps [of arr n i l])

lemma Load_loop_bounds:
  "i < n \<Longrightarrow> fst (arr ! i) = GString ''sops'' \<Longrightarrow> \<not> Suc i \<le> l \<Longrightarrow>
   Load_loop arr n i l = Inl SliceBoundsOutOfRange"
  by (simp add: Load_loop.simps [of arr n i l])

lemmas Load_loop_eval = Load_loop_done Load_loop_keep Load_loop_remove Load_loop_bounds

section \<open>The key sources that LoadMetadata builds\<close>

text \<open>Neither loop changes the name of the key source it fills.\<close>

lemma kmsEntries_loop_Name:
  "kmsEntries_loop timeParse ks src = Inr (src', e) \<Longrightarrow> Name src' = Name src"
  by (induction ks arbitrary: src) (auto split: sum.splits simp: Let_def)

lemma pgpEntries_loop_Name:
  "pgpEntries_loop timeParse ks src = Inr (src', e) \<Longrightarrow> Name src' = Name src"
  by (induction ks arbitrary: src) (auto split: sum.splits)

lemma appendKms_names:
  assumes "appendKms timeParse data md = Inr md'"
  shows "map Name (KeySources md') = map Name (KeySources md)
         \<or> map Name (KeySources md') = map Name (KeySources md) @ [''kms'']"
proof (cases "mapIndex data (GString ''kms'')")
  case (GSlice k)
  show ?thesis
  proof (cases "kmsEntries timeParse k")
    case (Inl p)
    with assms GSlice show ?thesis by (simp add: appendKms_def)
  next
    case (Inr res)
    obtain ks e where res: "res = (ks, e)" by (cases res)
    with Inr have "Name ks = ''kms''"
      by (auto simp: kmsEntries_def dest: kmsEntries_loop_Name)
    with assms GSlice Inr res show ?thesis
      by (auto simp: appendKms_def split: if_splits)
  qed
qed (use assms in \<open>auto simp: appendKms_def\<close>)

lemma appendPgp_names:
  assumes "appendPgp timeParse data md = Inr md'"
  shows "map Name (KeySources md') = map Name (KeySources md)
         \<or> map Name (KeySources md') = map Name (KeySources md) @ [''pgp'']"
proof (cases "mapIndex data (GString ''pgp'')")
  case (GSlice k)
  show ?thesis
  proof (cases "pgpEntries timeParse k")
    case (Inl p)
    with assms GSlice show ?thesis by (simp add: appendPgp_def)
  next
    case (Inr res)
    obtain ks e where res: "res = (ks, e)" by (cases res)
    with Inr have "Name ks = ''pgp''"
      by (auto simp: pgpEntries_def dest: pgpEntries_loop_Name)
    with assms GSlice Inr res show ?thesis
      by (auto simp: appendPgp_def split: if_splits)
  qed
qed (use assms in \<open>auto simp: appendPgp_def\<close>)

lemma metadataFromData_names:
  assumes "metadataFromData timeParse data = Inr (md, e)"
  shows "map Name (KeySources md) \<in> set [[], [''kms''], [''pgp''], [''kms'', ''pgp'']]"
  using assms
  by (auto simp: metadataFromData_def Let_def zeroMetadata_def split: sum.splits
      dest!: appendKms_names appendPgp_names)

text \<open>
  Claim C8. Whenever \<^verbatim>\<open>LoadMetadata\<close> returns, the names of the key sources of the
  returned metadata are, in this order, at most one \<^verbatim>\<open>kms\<close> followed by at most one
  \<^verbatim>\<open>pgp\<close>, and nothing else: the \<^verbatim>\<open>kms\<close> source comes before the \<^verbatim>\<open>pgp\<close>
  source, there is at most one source of each kind and no other kind, wherever the
  two lists stand in the document.
\<close>

theorem C8_key_source_order:
  "LoadMetadata lib timeParse inp = Inr (md, e) \<Longrightarrow>
   map Name (KeySources md) \<in> set [[], [''kms''], [''pgp''], [''kms'', ''pgp'']]"
  by (auto simp: LoadMetadata_def zeroMetadata_def split: sum.splits
      dest: metadataFromData_names)

theorem C8_key_source_order_witness:
  "LoadMetadata exampleYaml exampleTime docGood
     = Inr (\<lparr>MessageAuthenticationCode = ''m'', LastModified = 63605606400,
             UnencryptedSuffix = ''_unencrypted'', Version = ''v1'',
             KeySources =
               [\<lparr>Name = ''kms'', Keys = [KMSMasterKey ''k1'' '''' ''e1'' 63605606400]\<rparr>,
                \<lparr>Name = ''pgp'', Keys = [GPGMasterKey ''f1'' ''e3'' 63605606400]\<rparr>]\<rparr>,
            None)
   \<and> map Name
        [\<lparr>Name = ''kms'', Keys = [KMSMasterKey ''k1'' '''' ''e1'' 63605606400]\<rparr>,
         \<lparr>Name = ''pgp'', Keys = [GPGMasterKey ''f1'' ''e3'' 63605606400]\<rparr>]
       \<in> set [[], [''kms''], [''pgp''], [''kms'', ''pgp'']]"
  using C8_key_source_order [OF docGood_metadata] by (simp add: docGood_metadata)

section \<open>Key entries and the fields of the metadata block\<close>

lemma assertString_field:
  "isString (mapIndex entry (GString name)) \<Longrightarrow>
   assertString site (mapIndex entry (GString name)) = Inr (entryField (GMap entry) name)"
  by (cases "mapIndex entry (GString name)") simp_all

lemma entryField_role:
  "(case mapIndex entry (GString name) of GString r \<Rightarrow> r | _ \<Rightarrow> [])
     = entryField (GMap entry) name"
  by simp

lemma kmsEntries_loop_parsed:
  "list_all kmsEntryFields ks \<Longrightarrow> list_all (entryDateParses timeParse) ks \<Longrightarrow>
   kmsEntries_loop timeParse ks src
     = Inr (src\<lparr>Keys := Keys src @ map (kmsKeyOf timeParse) ks\<rparr>, None)"
proof (induction ks arbitrary: src)
  case Nil
  then show ?case by simp
next
  case (Cons v ks)
  from Cons.prems(1) obtain entry where v: "v = GMap entry"
    by (cases v) simp_all
  from Cons.prems(2) have "entryDateParses timeParse v"
    by simp
  then obtain t where t: "timeParse (entryField v ''created_at'') = Inr t"
    by (cases "timeParse (entryField v ''created_at'')") (simp_all add: entryDateParses_def)
  from Cons.prems v have fields: "isString (mapIndex entry (GString ''arn''))"
    "isString (mapIndex entry (GString ''enc''))"
    "isString (mapIndex entry (GString ''created_at''))"
    by simp_all
  from Cons.prems have rest: "list_all kmsEntryFields ks"
    "list_all (entryDateParses timeParse) ks"
    by simp_all
  have "kmsEntries_loop timeParse (v # ks) src
      = kmsEntries_loop timeParse ks (src\<lparr>Keys := Keys src @ [kmsKeyOf timeParse v]\<rparr>)"
    using t by (simp add: v assertString_field fields kmsKeyOf_def pgpKeyOf_def entryField_role
        del: entryField.simps)
  then show ?case
    by (simp add: Cons.IH [OF rest])
qed

lemma kmsEntries_loop_unparsed:
  "list_all kmsEntryFields ks \<Longrightarrow> \<not> list_all (entryDateParses timeParse) ks \<Longrightarrow>
   \<exists>src' err. kmsEntries_loop timeParse ks src = Inr (src', Some err)"
proof (induction ks arbitrary: src)
  case Nil
  then show ?case by simp
next
  case (Cons v ks)
  from Cons.prems(1) obtain entry where v: "v = GMap entry"
    by (cases v) simp_all
  from Cons.prems v have fields: "isString (mapIndex entry (GString ''arn''))"
    "isString (mapIndex entry (GString ''enc''))"
    "isString (mapIndex entry (GString ''created_at''))"
    by simp_all
  show ?case
  proof (cases "timeParse (entryField v ''created_at'')")
    case (Inl err)
    then show ?thesis
      by (simp add: v assertString_field fields entryField_role del: entryField.simps)
  next
    case (Inr t)
    then have "entryDateParses timeParse v"
      by (simp add: entryDateParses_def)
    with Cons.prems have rest: "list_all kmsEntryFields ks"
      "\<not> list_all (entryDateParses timeParse) ks"
      by simp_all
    from Inr have "kmsEntries_loop timeParse (v # ks) src
        = kmsEntries_loop timeParse ks
            (src\<lparr>Keys := Keys src @ [KMSMasterKey (entryField v ''arn'')
               (entryField v ''role'') (entryField v ''enc'') t]\<rparr>)"
      by (simp add: v assertString_field fields entryField_role del: entryField.simps)
    with Cons.IH [OF rest] show ?thesis by simp
  qed
qed

lemma pgpEntries_loop_parsed:
  "list_all pgpEntryFields ks \<Longrightarrow> list_all (entryDateParses timeParse) ks \<Longrightarrow>
   pgpEntries_loop timeParse ks src
     = Inr (src\<lparr>Keys := Keys src @ map (pgpKeyOf timeParse) ks\<rparr>, None)"
proof (induction ks arbitrary: src)
  case Nil
  then show ?case by simp
next
  case (Cons v ks)
  from Cons.prems(1) obtain entry where v: "v = GMap entry"
    by (cases v) simp_all
  from Cons.prems(2) have "entryDateParses timeParse v"
    by simp
  then obtain t where t: "timeParse (entryField v ''created_at'') = Inr t"
    by (cases "timeParse (entryField v ''created_at'')") (simp_all add: entryDateParses_def)
  from Cons.prems v have fields: "isString (mapIndex entry (GString ''fp''))"
    "isString (mapIndex entry (GString ''enc''))"
    "isString (mapIndex entry (GString ''created_at''))"
    by simp_all
  from Cons.prems have rest: "list_all pgpEntryFields ks"
    "list_all (entryDateParses timeParse) ks"
    by simp_all
  have "pgpEntries_loop timeParse (v # ks) src
      = pgpEntries_loop timeParse ks (src\<lparr>Keys := Keys src @ [pgpKeyOf timeParse v]\<rparr>)"
    using t by (simp add: v assertString_field fields kmsKeyOf_def pgpKeyOf_def entryField_role
        del: entryField.simps)
  then show ?case
    by (simp add: Cons.IH [OF rest])
qed

lemma pgpEntries_loop_unparsed:
  "list_all pgpEntryFields ks \<Longrightarrow> \<not> list_all (entryDateParses timeParse) ks \<Longrightarrow>
   \<exists>src' err. pgpEntries_loop timeParse ks src = Inr (src', Some err)"
proof (induction ks arbitrary: src)
  case Nil
  then show ?case by simp
next
  case (Cons v ks)
  from Cons.prems(1) obtain entry where v: "v = GMap entry"
    by (cases v) simp_all
  from Cons.prems v have fields: "isString (mapIndex entry (GString ''fp''))"
    "isString (mapIndex entry (GString ''enc''))"
    "isString (mapIndex entry (GString ''created_at''))"
    by simp_all
  show ?case
  proof (cases "timeParse (entryField v ''created_at'')")
    case (Inl err)
    then show ?thesis
      by (simp add: v assertString_field fields entryField_role del: entryField.simps)
  next
    case (Inr t)
    then have "entryDateParses timeParse v"
      by (simp add: entryDateParses_def)
    with Cons.prems have rest: "list_all pgpEntryFields ks"
      "\<not> list_all (entryDateParses timeParse) ks"
      by simp_all
    from Inr have "pgpEntries_loop timeParse (v # ks) src
        = pgpEntries_loop timeParse ks
            (src\<lparr>Keys := Keys src @ [GPGMasterKey (entryField v ''fp'')
               (entryField v ''enc'') t]\<rparr>)"
      by (simp add: v assertString_field fields entryField_role del: entryField.simps)
    with Cons.IH [OF rest] show ?thesis by simp
  qed
qed

text \<open>What the two blocks of \<^verbatim>\<open>LoadMetadata\<close> append when the entries have their fields.\<close>

lemma appendKms_fields:
  assumes "entriesHaveFields kmsEntryFields (mapIndex data (GString ''kms''))"
  shows "appendKms timeParse data md
     = Inr (md\<lparr>KeySources := KeySources md
          @ keySourceOf ''kms'' (kmsKeyOf timeParse) (entryDateParses timeParse)
              (mapIndex data (GString ''kms''))\<rparr>)"
proof (cases "mapIndex data (GString ''kms'')")
  case (GSlice k)
  with assms have fields: "list_all kmsEntryFields k"
    by (simp add: entriesHaveFields_def)
  show ?thesis
  proof (cases "list_all (entryDateParses timeParse) k")
    case True
    from kmsEntries_loop_parsed [OF fields True] GSlice True show ?thesis
      by (simp add: appendKms_def kmsEntries_def keySourceOf_def)
  next
    case False
    from kmsEntries_loop_unparsed [OF fields False, of "\<lparr>Name = ''kms'', Keys = []\<rparr>"]
    obtain src' err where
      "kmsEntries_loop timeParse k \<lparr>Name = ''kms'', Keys = []\<rparr> = Inr (src', Some err)"
      by blast
    with GSlice False show ?thesis
      by (simp add: appendKms_def kmsEntries_def keySourceOf_def)
  qed
qed (simp_all add: appendKms_def keySourceOf_def)

lemma appendPgp_fields:
  assumes "entriesHaveFields pgpEntryFields (mapIndex data (GString ''pgp''))"
  shows "appendPgp timeParse data md
     = Inr (md\<lparr>KeySources := KeySources md
          @ keySourceOf ''pgp'' (pgpKeyOf timeParse) (entryDateParses timeParse)
              (mapIndex data (GString ''pgp''))\<rparr>)"
proof (cases "mapIndex data (GString ''pgp'')")
  case (GSlice k)
  with assms have fields: "list_all pgpEntryFields k"
    by (simp add: entriesHaveFields_def)
  show ?thesis
  proof (cases "list_all (entryDateParses timeParse) k")
    case True
    from pgpEntries_loop_parsed [OF fields True] GSlice True show ?thesis
      by (simp add: appendPgp_def pgpEntries_def keySourceOf_def)
  next
    case False
    from pgpEntries_loop_unparsed [OF fields False, of "\<lparr>Name = ''pgp'', Keys = []\<rparr>"]
    obtain src' err where
      "pgpEntries_loop timeParse k \<lparr>Name = ''pgp'', Keys = []\<rparr> = Inr (src', Some err)"
      by blast
    with GSlice False show ?thesis
      by (simp add: appendPgp_def pgpEntries_def keySourceOf_def)
  qed
qed (simp_all add: appendPgp_def keySourceOf_def)

lemma metadataFromData_fields:
  assumes "hasMetadataFields data"
    and "timeParse (entryField (GMap data) ''lastmodified'') = Inr t"
    and "entriesHaveFields kmsEntryFields (mapIndex data (GString ''kms''))"
    and "entriesHaveFields pgpEntryFields (mapIndex data (GString ''pgp''))"
  shows "metadataFromData timeParse data
     = Inr (\<lparr>MessageAuthenticationCode = entryField (GMap data) ''mac'',
             LastModified = t,
             UnencryptedSuffix = entryField (GMap data) ''unencrypted_suffix'',
             Version = entryField (GMap data) ''version'',
             KeySources =
               keySourceOf ''kms'' (kmsKeyOf timeParse) (entryDateParses timeParse)
                 (mapIndex data (GString ''kms''))
               @ keySourceOf ''pgp'' (pgpKeyOf timeParse) (entryDateParses timeParse)
                   (mapIndex data (GString ''pgp''))\<rparr>, None)"
  using assms(1,2)
  by (simp add: metadataFromData_def hasMetadataFields_def assertString_field
      appendKms_fields [OF assms(3)] appendPgp_fields [OF assms(4)] zeroMetadata_def
      del: entryField.simps)

section \<open>A malformed key entry\<close>

lemma docBadDate_chain:
  "Unmarshal_Map exampleYaml docBadDate
     = Inr [(GString ''a'', GInt 1), (GString ''sops'', GMap blockBadDate)]"
  "Marshal exampleYaml (GMap blockBadDate) = Inr textBadDate"
  "Unmarshal_Map exampleYaml textBadDate = Inr blockBadDate"
  by (simp_all add: example_defs block_defs)

lemma docNoArn_chain:
  "Unmarshal_Map exampleYaml docNoArn
     = Inr [(GString ''a'', GInt 1), (GString ''sops'', GMap blockNoArn)]"
  "Marshal exampleYaml (GMap blockNoArn) = Inr textNoArn"
  "Unmarshal_Map exampleYaml textNoArn = Inr blockNoArn"
  by (simp_all add: example_defs block_defs)

text \<open>
  Claim C3, as stated, fails. In the document \<open>docBadDate\<close> the \<^verbatim>\<open>kms\<close> list holds
  a well-formed entry and an entry whose \<^verbatim>\<open>created_at\<close> does not parse:
  \<^verbatim>\<open>LoadMetadata\<close> returns without an error, but with no \<^verbatim>\<open>kms\<close> key source at all (the one
  source is that of the empty \<^verbatim>\<open>pgp\<close> list), so the well-formed entry is dropped with
  the malformed one. In \<open>docNoArn\<close> the second
  entry has no \<^verbatim>\<open>arn\<close>: \<^verbatim>\<open>LoadMetadata\<close> panics and returns nothing.
\<close>

theorem C3_malformed_entry_counterexample:
  "kmsEntryFields kmsEntryGood \<and> entryDateParses exampleTime kmsEntryGood
   \<and> kmsEntryFields kmsEntryBadDate \<and> \<not> entryDateParses exampleTime kmsEntryBadDate
   \<and> mapIndex blockBadDate (GString ''kms'') = GSlice [kmsEntryGood, kmsEntryBadDate]
   \<and> LoadMetadata exampleYaml exampleTime docBadDate
       = Inr (\<lparr>MessageAuthenticationCode = ''m'', LastModified = 63605606400,
               UnencryptedSuffix = ''_unencrypted'', Version = ''v1'',
               KeySources = [\<lparr>Name = ''pgp'', Keys = []\<rparr>]\<rparr>,
              None)
   \<and> \<not> kmsEntryFields kmsEntryNoArn
   \<and> mapIndex blockNoArn (GString ''kms'') = GSlice [kmsEntryGood, kmsEntryNoArn]
   \<and> LoadMetadata exampleYaml exampleTime docNoArn = Inl (InterfaceConversion ''entry[arn]'')"
proof -
  have "LoadMetadata exampleYaml exampleTime docBadDate
       = Inr (\<lparr>MessageAuthenticationCode = ''m'', LastModified = 63605606400,
               UnencryptedSuffix = ''_unencrypted'', Version = ''v1'',
               KeySources = [\<lparr>Name = ''pgp'', Keys = []\<rparr>]\<rparr>,
              None)"
    by (simp add: LoadMetadata_def docBadDate_chain mapIndex_def)
       (simp add: metadata_defs block_defs)
  moreover have "LoadMetadata exampleYaml exampleTime docNoArn
       = Inl (InterfaceConversion ''entry[arn]'')"
    by (simp add: LoadMetadata_def docNoArn_chain mapIndex_def)
       (simp add: metadata_defs block_defs)
  ultimately show ?thesis
    by (simp add: block_defs mapIndex_def entryDateParses_def exampleTime_def)
qed

text \<open>
  Claim C3, amended. Let the metadata block hold its four scalar fields with a date of
  the last modification that parses, and let every entry of its \<^verbatim>\<open>kms\<close> and
  \<^verbatim>\<open>pgp\<close> lists have its required scalar fields. Then \<^verbatim>\<open>LoadMetadata\<close> returns
  without a document-level error, and the key sources are decided kind by kind: a
  list all of whose \<^verbatim>\<open>created_at\<close> timestamps parse gives one key source with one
  key per entry, in order; a list with an entry whose timestamp does not parse gives
  no key source of that kind, so its well-formed entries are dropped with the
  malformed one.
\<close>

theorem C3_malformed_entry_amended:
  assumes "Unmarshal_Map lib inp = Inr encoded"
    and "Marshal lib (mapIndex encoded (GString ''sops'')) = Inr sopsYaml"
    and "Unmarshal_Map lib sopsYaml = Inr data"
    and "hasMetadataFields data"
    and "\<not> isl (timeParse (entryField (GMap data) ''lastmodified''))"
    and "entriesHaveFields kmsEntryFields (mapIndex data (GString ''kms''))"
    and "entriesHaveFields pgpEntryFields (mapIndex data (GString ''pgp''))"
  shows "\<exists>md. LoadMetadata lib timeParse inp = Inr (md, None)
     \<and> KeySources md =
         keySourceOf ''kms'' (kmsKeyOf timeParse) (entryDateParses timeParse)
           (mapIndex data (GString ''kms''))
         @ keySourceOf ''pgp'' (pgpKeyOf timeParse) (entryDateParses timeParse)
             (mapIndex data (GString ''pgp''))"
proof -
  from assms(5) obtain t where "timeParse (entryField (GMap data) ''lastmodified'') = Inr t"
    by (cases "timeParse (entryField (GMap data) ''lastmodified'')") simp_all
  from metadataFromData_fields [where data = data and timeParse = timeParse and t = t,
      OF assms(4) this assms(6,7)] assms(1-3) show ?thesis
    by (simp add: LoadMetadata_def)
qed

theorem C3_malformed_entry_amended_witness:
  "Unmarshal_Map exampleYaml docBadDate
     = Inr [(GString ''a'', GInt 1), (GString ''sops'', GMap blockBadDate)]
   \<and> Marshal exampleYaml
        (mapIndex [(GString ''a'', GInt 1), (GString ''sops'', GMap blockBadDate)]
           (GString ''sops'')) = Inr textBadDate
   \<and> Unmarshal_Map exampleYaml textBadDate = Inr blockBadDate
   \<and> hasMetadataFields blockBadDate
   \<and> \<not> isl (exampleTime (entryField (GMap blockBadDate) ''lastmodified''))
   \<and> entriesHaveFields kmsEntryFields (mapIndex blockBadDate (GString ''kms''))
   \<and> entriesHaveFields pgpEntryFields (mapIndex blockBadDate (GString ''pgp''))
   \<and> (\<exists>md. LoadMetadata exampleYaml exampleTime docBadDate = Inr (md, None)
         \<and> KeySources md = [\<lparr>Name = ''pgp'', Keys = []\<rparr>])"
proof -
  have chain: "Marshal exampleYaml
        (mapIndex [(GString ''a'', GInt 1), (GString ''sops'', GMap blockBadDate)]
           (GString ''sops'')) = Inr textBadDate"
    by (simp add: mapIndex_def docBadDate_chain)
  have fields: "hasMetadataFields blockBadDate"
    "\<not> isl (exampleTime (entryField (GMap blockBadDate) ''lastmodified''))"
    "entriesHaveFields kmsEntryFields (mapIndex blockBadDate (GString ''kms''))"
    "entriesHaveFields pgpEntryFields (mapIndex blockBadDate (GString ''pgp''))"
    by (simp_all add: hasMetadataFields_def entriesHaveFields_def block_defs mapIndex_def
        exampleTime_def)
  have sources: "keySourceOf ''kms'' (kmsKeyOf exampleTime) (entryDateParses exampleTime)
           (mapIndex blockBadDate (GString ''kms''))
         @ keySourceOf ''pgp'' (pgpKeyOf exampleTime) (entryDateParses exampleTime)
             (mapIndex blockBadDate (GString ''pgp''))
         = [\<lparr>Name = ''pgp'', Keys = []\<rparr>]"
    by (simp add: keySourceOf_def block_defs mapIndex_def entryDateParses_def exampleTime_def)
  from C3_malformed_entry_amended [where timeParse = exampleTime,
      OF docBadDate_chain(1) chain docBadDate_chain(3) fields,
      unfolded sources]
  show ?thesis
    using chain fields by (simp add: docBadDate_chain)
qed

section \<open>The unchecked assertions on the fields of the metadata block\<close>

lemma assertMap_Inl:
  "assertMap site v = Inl p \<Longrightarrow> p = InterfaceConversion site"
  by (cases v) auto

text \<open>The sites of the assertions inside the two loops over the key entries.\<close>

lemma kmsEntries_loop_panic:
  "kmsEntries_loop timeParse ks src = Inl p \<Longrightarrow>
   p \<in> InterfaceConversion ` {''v'', ''entry[arn]'', ''entry[enc]'', ''entry[created_at]''}"
  by (induction ks arbitrary: src)
     (auto split: sum.splits simp: assertString_Inl dest!: assertMap_Inl)

lemma pgpEntries_loop_panic:
  "pgpEntries_loop timeParse ks src = Inl p \<Longrightarrow>
   p \<in> InterfaceConversion ` {''v'', ''entry[fp]'', ''entry[enc]'', ''entry[created_at]''}"
  by (induction ks arbitrary: src)
     (auto split: sum.splits simp: assertString_Inl dest!: assertMap_Inl)

lemma appendKms_panic:
  "appendKms timeParse data md = Inl p \<Longrightarrow>
   p \<in> InterfaceConversion ` {''v'', ''entry[arn]'', ''entry[enc]'', ''entry[created_at]''}"
  by (cases "mapIndex data (GString ''kms'')")
     (auto simp: appendKms_def kmsEntries_def split: sum.splits dest!: kmsEntries_loop_panic)

lemma appendPgp_panic:
  "appendPgp timeParse data md = Inl p \<Longrightarrow>
   p \<in> InterfaceConversion ` {''v'', ''entry[fp]'', ''entry[enc]'', ''entry[created_at]''}"
  by (cases "mapIndex data (GString ''pgp'')")
     (auto simp: appendPgp_def pgpEntries_def split: sum.splits dest!: pgpEntries_loop_panic)

lemma metadataFromData_panic:
  assumes "hasMetadataFields data" and "metadataFromData timeParse data = Inl p"
  shows "p \<in> InterfaceConversion `
           {''v'', ''entry[arn]'', ''entry[fp]'', ''entry[enc]'', ''entry[created_at]''}"
  using assms
  by (auto simp: metadataFromData_def hasMetadataFields_def assertString_Inl Let_def
      split: sum.splits dest!: appendKms_panic appendPgp_panic)

lemma metadataFromData_returns:
  assumes "metadataFromData timeParse data = Inr (md, None)"
  shows "hasMetadataFields data"
  using assms
  by (auto simp: metadataFromData_def hasMetadataFields_def assertString_Inr Let_def
      split: sum.splits)

lemma docNoVersion_chain:
  "Unmarshal_Map exampleYaml docNoVersion
     = Inr [(GString ''a'', GInt 1), (GString ''sops'', GMap blockNoVersion)]"
  "Marshal exampleYaml (GMap blockNoVersion) = Inr textNoVersion"
  "Unmarshal_Map exampleYaml textNoVersion = Inr blockNoVersion"
  by (simp_all add: example_defs block_defs)

lemma docNoMac_chain:
  "Unmarshal_Map exampleYaml docNoMac
     = Inr [(GString ''a'', GInt 1), (GString ''sops'', GMap blockNoMac)]"
  "Marshal exampleYaml (GMap blockNoMac) = Inr textNoMac"
  "Unmarshal_Map exampleYaml textNoMac = Inr blockNoMac"
  by (simp_all add: example_defs block_defs)

text \<open>
  Claim C10, as stated, fails: \<^verbatim>\<open>LoadMetadata\<close> also returns normally without the
  four fields. The block of \<open>docNoVersion\<close> has neither \<^verbatim>\<open>unencrypted_suffix\<close> nor
  \<^verbatim>\<open>version\<close>, and its \<^verbatim>\<open>lastmodified\<close> does not parse: \<^verbatim>\<open>LoadMetadata\<close>
  returns an error, before it reaches the assertions on the missing fields. The text
  \<open>docBroken\<close> has no block at all, and \<^verbatim>\<open>LoadMetadata\<close> returns the error of the
  parser.
\<close>

theorem C10_metadata_fields_counterexample:
  "Unmarshal_Map exampleYaml docNoVersion
     = Inr [(GString ''a'', GInt 1), (GString ''sops'', GMap blockNoVersion)]
   \<and> mapIndex blockNoVersion (GString ''unencrypted_suffix'') = GNil
   \<and> mapIndex blockNoVersion (GString ''version'') = GNil
   \<and> \<not> hasMetadataFields blockNoVersion
   \<and> LoadMetadata exampleYaml exampleTime docNoVersion
       = Inr (\<lparr>MessageAuthenticationCode = ''m'', LastModified = 0,
               UnencryptedSuffix = '''', Version = '''', KeySources = []\<rparr>,
              Some ''Could not parse last modified date: parsing time yesterday'')
   \<and> LoadMetadata exampleYaml exampleTime docBroken
       = Inr (zeroMetadata,
              Some ''Error unmarshalling input yaml: yaml: did not find expected node content'')"
proof -
  have "LoadMetadata exampleYaml exampleTime docNoVersion
       = Inr (\<lparr>MessageAuthenticationCode = ''m'', LastModified = 0,
               UnencryptedSuffix = '''', Version = '''', KeySources = []\<rparr>,
              Some ''Could not parse last modified date: parsing time yesterday'')"
    by (simp add: LoadMetadata_def docNoVersion_chain mapIndex_def)
       (simp add: metadata_defs block_defs)
  moreover have "LoadMetadata exampleYaml exampleTime docBroken
       = Inr (zeroMetadata,
              Some ''Error unmarshalling input yaml: yaml: did not find expected node content'')"
    by (simp add: LoadMetadata_def docBroken_rejected)
  ultimately show ?thesis
    by (simp add: docNoVersion_chain hasMetadataFields_def block_defs mapIndex_def)
qed

text \<open>
  Claim C10, amended. \<^verbatim>\<open>LoadMetadata\<close> returns a metadata without an error only when
  the metadata block, as it is read back, is a mapping that holds \<^verbatim>\<open>mac\<close>,
  \<^verbatim>\<open>lastmodified\<close>, \<^verbatim>\<open>unencrypted_suffix\<close> and \<^verbatim>\<open>version\<close> as strings. Under
  that condition the failure branches of the unchecked assertions on these four
  fields are unreachable. They are reachable without it: for the document
  \<open>docNoMac\<close>, whose block lacks \<^verbatim>\<open>mac\<close>, \<^verbatim>\<open>LoadMetadata\<close> returns no error value
  but panics in the assertion on \<^verbatim>\<open>data["mac"]\<close>.
\<close>

theorem C10_metadata_fields_amended:
  "(Unmarshal_Map lib inp = Inr encoded
      \<and> Marshal lib (mapIndex encoded (GString ''sops'')) = Inr sopsYaml
      \<and> Unmarshal_Map lib sopsYaml = Inr data \<longrightarrow>
    (LoadMetadata lib timeParse inp = Inr (md, None) \<longrightarrow> hasMetadataFields data)
    \<and> (hasMetadataFields data \<longrightarrow>
         LoadMetadata lib timeParse inp \<noteq> Inl (InterfaceConversion ''data[mac]'')
         \<and> LoadMetadata lib timeParse inp \<noteq> Inl (InterfaceConversion ''data[lastmodified]'')
         \<and> LoadMetadata lib timeParse inp
             \<noteq> Inl (InterfaceConversion ''data[unencrypted_suffix]'')
         \<and> LoadMetadata lib timeParse inp \<noteq> Inl (InterfaceConversion ''data[version]'')))
   \<and> \<not> hasMetadataFields blockNoMac
   \<and> LoadMetadata exampleYaml exampleTime docNoMac = Inl (InterfaceConversion ''data[mac]'')"
proof -
  have panic: "LoadMetadata exampleYaml exampleTime docNoMac
      = Inl (InterfaceConversion ''data[mac]'')"
    by (simp add: LoadMetadata_def docNoMac_chain mapIndex_def)
       (simp add: metadata_defs block_defs)
  have lacks: "\<not> hasMetadataFields blockNoMac"
    by (simp add: hasMetadataFields_def block_defs mapIndex_def)
  have general: "(LoadMetadata lib timeParse inp = Inr (md, None) \<longrightarrow> hasMetadataFields data)
    \<and> (hasMetadataFields data \<longrightarrow>
         LoadMetadata lib timeParse inp \<noteq> Inl (InterfaceConversion ''data[mac]'')
         \<and> LoadMetadata lib timeParse inp \<noteq> Inl (InterfaceConversion ''data[lastmodified]'')
         \<and> LoadMetadata lib timeParse inp
             \<noteq> Inl (InterfaceConversion ''data[unencrypted_suffix]'')
         \<and> LoadMetadata lib timeParse inp \<noteq> Inl (InterfaceConversion ''data[version]''))"
    if chain: "Unmarshal_Map lib inp = Inr encoded"
      "Marshal lib (mapIndex encoded (GString ''sops'')) = Inr sopsYaml"
      "Unmarshal_Map lib sopsYaml = Inr data"
  proof -
    from chain have eq: "LoadMetadata lib timeParse inp = metadataFromData timeParse data"
      by (simp add: LoadMetadata_def)
    show ?thesis
      unfolding eq
      by (auto dest: metadataFromData_returns metadataFromData_panic)
  qed
  from panic lacks general show ?thesis
    by blast
qed

theorem C10_metadata_fields_amended_witness:
  "Unmarshal_Map exampleYaml docGood
     = Inr [(GString ''a'', GInt 1), (GString ''sops'', GMap blockGood)]
   \<and> Marshal exampleYaml
        (mapIndex [(GString ''a'', GInt 1), (GString ''sops'', GMap blockGood)]
           (GString ''sops'')) = Inr textGood
   \<and> Unmarshal_Map exampleYaml textGood = Inr blockGood
   \<and> hasMetadataFields blockGood
   \<and> (\<exists>md. LoadMetadata exampleYaml exampleTime docGood = Inr (md, None))
   \<and> LoadMetadata exampleYaml exampleTime docGood \<noteq> Inl (InterfaceConversion ''data[mac]'')
   \<and> LoadMetadata exampleYaml exampleTime docGood
       \<noteq> Inl (InterfaceConversion ''data[lastmodified]'')
   \<and> LoadMetadata exampleYaml exampleTime docGood
       \<noteq> Inl (InterfaceConversion ''data[unencrypted_suffix]'')
   \<and> LoadMetadata exampleYaml exampleTime docGood \<noteq> Inl (InterfaceConversion ''data[version]'')"
proof -
  have chain: "Marshal exampleYaml
        (mapIndex [(GString ''a'', GInt 1), (GString ''sops'', GMap blockGood)]
           (GString ''sops'')) = Inr textGood"
    by (simp add: mapIndex_def textGood_chain)
  have fields: "hasMetadataFields blockGood"
    by (simp add: hasMetadataFields_def block_defs mapIndex_def)
  from C10_metadata_fields_amended [where lib = exampleYaml and inp = docGood
      and timeParse = exampleTime and data = blockGood and sopsYaml = textGood
      and encoded = "[(GString ''a'', GInt 1), (GString ''sops'', GMap blockGood)]"]
    docGood_decoded chain textGood_chain(2) fields
  show ?thesis
    by (simp add: docGood_metadata)
qed

section \<open>The loop of Load that strips the metadata block\<close>

text \<open>Once the index has reached the length of \<^verbatim>\<open>data\<close>, nothing is removed any more.\<close>

lemma Load_loop_past:
  "l \<le> i \<Longrightarrow> Load_loop arr n i l = Inr r \<Longrightarrow> r = take l arr"
proof (induction "n - i" arbitrary: i)
  case 0
  then show ?case by (simp add: Load_loop_done)
next
  case (Suc d)
  then have i: "i < n" by simp
  show ?case
  proof (cases "fst (arr ! i) = GString ''sops''")
    case True
    with i Suc.prems show ?thesis by (simp add: Load_loop_bounds)
  next
    case False
    with i Suc.prems have "Load_loop arr n (Suc i) l = Inr r"
      by (simp add: Load_loop_keep)
    with Suc.hyps(1) [of "Suc i"] Suc.hyps(2) Suc.prems(1) show ?thesis by simp
  qed
qed

text \<open>Where no item from the index on has the key \<^verbatim>\<open>sops\<close>, the loop changes nothing.\<close>

lemma Load_loop_no_sops:
  "(\<forall>j. i \<le> j \<longrightarrow> j < n \<longrightarrow> fst (arr ! j) \<noteq> GString ''sops'') \<Longrightarrow>
   Load_loop arr n i l = Inr (take l arr)"
proof (induction "n - i" arbitrary: i)
  case 0
  then show ?case by (simp add: Load_loop_done)
next
  case (Suc d)
  then have i: "i < n" by simp
  with Suc.prems have "fst (arr ! i) \<noteq> GString ''sops''" by simp
  with i have "Load_loop arr n i l = Load_loop arr n (Suc i) l"
    by (simp add: Load_loop_keep)
  moreover from Suc.hyps(2) have "d = n - Suc i" by simp
  moreover from Suc.prems have
    "\<forall>j. Suc i \<le> j \<longrightarrow> j < n \<longrightarrow> fst (arr ! j) \<noteq> GString ''sops''" by simp
  ultimately show ?case using Suc.hyps(1) [of "Suc i"] by simp
qed

text \<open>
  The state of the loop while the index is within \<^verbatim>\<open>data\<close>: the array is the items
  passed over (\<open>kept\<close>), the items of \<^verbatim>\<open>data\<close> still to come (\<open>rest\<close>) and what
  lies behind \<^verbatim>\<open>data\<close> (\<open>stale\<close>). If the loop returns, it returns \<open>kept\<close>
  followed by a subsequence of \<open>rest\<close> that has all its items other than \<^verbatim>\<open>sops\<close>
  items.
\<close>

lemma Load_loop_within:
  assumes "Load_loop arr n i l = Inr r"
    and "arr = kept @ rest @ stale" and "length kept = i" and "length (kept @ rest) = l"
    and "length arr = n"
  shows "\<exists>kept'. r = kept @ kept' \<and> subseq kept' rest
           \<and> filter notSops kept' = filter notSops rest"
  using assms
proof (induction "length rest" arbitrary: rest kept stale arr i l rule: less_induct)
  case less
  show ?case
  proof (cases rest)
    case Nil
    with less.prems have "l \<le> i" by simp
    from Load_loop_past [OF this less.prems(1)] less.prems Nil have "r = kept" by simp
    with Nil show ?thesis by simp
  next
    case (Cons x rest')
    with less.prems have i: "i < n" and il: "Suc i \<le> l" and x: "arr ! i = x"
      by (auto simp: nth_append)
    show ?thesis
    proof (cases "fst x = GString ''sops''")
      case False
      with i x less.prems(1) have run: "Load_loop arr n (Suc i) l = Inr r"
        by (simp add: Load_loop_keep)
      from Cons less.prems have "arr = (kept @ [x]) @ rest' @ stale"
        "length (kept @ [x]) = Suc i" "length ((kept @ [x]) @ rest') = l"
        by simp_all
      from less.hyps [OF _ run this less.prems(5)] Cons
      obtain kept' where "r = (kept @ [x]) @ kept'" "subseq kept' rest'"
        "filter notSops kept' = filter notSops rest'"
        by auto
      with Cons False show ?thesis
        by (intro exI [of _ "x # kept'"]) (simp add: notSops_def)
    next
      case True
      let ?arr = "take i arr @ drop (Suc i) (take l arr) @ drop (l - 1) arr"
      from True i il x less.prems(1) have run: "Load_loop ?arr n (Suc i) (l - 1) = Inr r"
        by (simp add: Load_loop_remove)
      from less.prems have "take l arr = kept @ rest"
        by (metis append.assoc append_eq_conv_conj)
      with Cons less.prems have parts: "take i arr = kept" "drop (Suc i) (take l arr) = rest'"
        by simp_all
      show ?thesis
      proof (cases rest')
        case Nil
        with Cons less.prems have "l - 1 \<le> Suc i" by simp
        from Load_loop_past [OF this run] parts Nil Cons less.prems have "r = kept"
          by simp
        with Cons Nil True show ?thesis by (simp add: notSops_def)
      next
        case rest'': (Cons y rest'')
        from parts rest'' have "?arr = (kept @ [y]) @ rest'' @ drop (l - 1) arr"
          by simp
        moreover from less.prems have "length (kept @ [y]) = Suc i" by simp
        moreover from Cons rest'' less.prems have "length ((kept @ [y]) @ rest'') = l - 1"
          by auto
        moreover from less.prems il have "length ?arr = n" by auto
        moreover from Cons rest'' have "length rest'' < length rest" by simp
        ultimately obtain kept' where "r = (kept @ [y]) @ kept'" "subseq kept' rest''"
          "filter notSops kept' = filter notSops rest''"
          using less.hyps [OF _ run] by blast
        with Cons rest'' True show ?thesis
          by (intro exI [of _ "y # kept'"]) (auto simp: notSops_def)
      qed
    qed
  qed
qed

lemma Load_loop_kept:
  assumes "Load_loop data (length data) 0 (length data) = Inr r"
  shows "subseq r data \<and> filter notSops r = filter notSops data"
  using Load_loop_within [OF assms, of "[]" data "[]"] by simp

text \<open>
  With one \<^verbatim>\<open>sops\<close> item the loop returns, and removes the item: the items behind
  it move down by one, and the items then read are items that were behind it.
\<close>

lemma Load_loop_one_sops:
  assumes "fst s = GString ''sops''"
    and "\<forall>e \<in> set xs \<union> set ys. fst e \<noteq> GString ''sops''"
    and "arr = kept @ xs @ s # ys" and "length arr = n" and "length kept = i"
  shows "Load_loop arr n i n = Inr (kept @ xs @ ys)"
  using assms
proof (induction xs arbitrary: kept i)
  case Nil
  let ?arr = "take i arr @ drop (Suc i) (take n arr) @ drop (n - 1) arr"
  from Nil have i: "i < n" and s: "fst (arr ! i) = GString ''sops''"
    by (auto simp: nth_append)
  then have step: "Load_loop arr n i n = Load_loop ?arr n (Suc i) (n - 1)"
    by (simp add: Load_loop_remove)
  from Nil have arr': "?arr = kept @ ys @ [last (s # ys)]"
    by (cases ys rule: rev_cases) auto
  have "fst (?arr ! j) \<noteq> GString ''sops''" if "Suc i \<le> j" "j < n" for j
  proof -
    from that Nil have ys: "ys \<noteq> []" by auto
    from that Nil have "?arr ! j = (ys @ [last ys]) ! (j - i)"
      unfolding arr' using ys by (simp add: nth_append)
    moreover from that Nil have "j - i \<le> length ys" by auto
    ultimately have "?arr ! j \<in> set ys"
      using ys by (cases "j - i < length ys") (auto simp: nth_append last_conv_nth not_less)
    with Nil.prems(2) show ?thesis by simp
  qed
  then have "Load_loop ?arr n (Suc i) (n - 1) = Inr (take (n - 1) ?arr)"
    by (intro Load_loop_no_sops) simp
  moreover from Nil have "take (n - 1) ?arr = kept @ ys"
    unfolding arr' by auto
  ultimately show ?case using step by simp
next
  case (Cons x xs)
  then have "i < n" and "fst (arr ! i) \<noteq> GString ''sops''"
    by (auto simp: nth_append)
  then have "Load_loop arr n i n = Load_loop arr n (Suc i) n"
    by (simp add: Load_loop_keep)
  moreover from Cons.prems have "Load_loop arr n (Suc i) n = Inr ((kept @ [x]) @ xs @ ys)"
    by (intro Cons.IH) simp_all
  ultimately show ?case by simp
qed

lemma Load_loop_distinct:
  assumes "distinct (map fst data)"
  shows "Load_loop data (length data) 0 (length data) = Inr (filter notSops data)"
proof (cases "GString ''sops'' \<in> fst ` set data")
  case False
  then have "\<forall>e \<in> set data. notSops e"
    by (force simp: notSops_def)
  then have "filter notSops data = data" by simp
  moreover from False have "Load_loop data (length data) 0 (length data)
      = Inr (take (length data) data)"
    by (intro Load_loop_no_sops) (metis image_eqI nth_mem)
  ultimately show ?thesis by simp
next
  case True
  then obtain s where "s \<in> set data" and s: "fst s = GString ''sops''"
    by auto
  then obtain xs ys where data: "data = xs @ s # ys"
    by (auto dest: split_list)
  from assms s have others: "\<forall>e \<in> set xs \<union> set ys. fst e \<noteq> GString ''sops''"
    unfolding data by (auto simp: image_iff)
  from Load_loop_one_sops [OF s others, of data "[]" "length data" 0] data
  have "Load_loop data (length data) 0 (length data) = Inr (xs @ ys)"
    by simp
  moreover from others s have "filter notSops data = xs @ ys"
    unfolding data by (auto simp: notSops_def filter_id_conv)
  ultimately show ?thesis by simp
qed

section \<open>String keys and the conversion of Load\<close>

text \<open>When \<^verbatim>\<open>Load\<close> returns a tree, the entries it has kept have string keys only.\<close>

lemma Load_returns_string_keys:
  assumes "Unmarshal_MapSlice lib inp = Inr data"
    and "Load lib rng inp = Inr (Some branch, err)"
  shows "stringKeysItems (filter notSops data)"
proof -
  from assms obtain kept where loop: "Load_loop data (length data) 0 (length data) = Inr kept"
    and conv: "mapSliceToTreeBranch rng kept = Inr branch"
    by (auto simp: Load_def split: sum.splits)
  from conv have "\<not> isl (mapSliceToTreeBranch rng kept)" by simp
  then have "stringKeysItems kept"
    by (simp add: conversion_panics_iff)
  then have "stringKeysItems (filter notSops kept)"
    by (auto simp: stringKeysItems_all)
  with Load_loop_kept [OF loop] show ?thesis by simp
qed

lemma docSopsIntKey_decoded:
  "Unmarshal_MapSlice exampleYaml docSopsIntKey
     = Inr [(GString ''a'', GInt 1), (GString ''sops'', GMapSlice [(GInt 1, GString ''x'')])]"
  by (simp add: example_defs)

text \<open>
  Claim C9, as stated, fails: \<^verbatim>\<open>Load\<close> also returns when a key of the parsed
  document is no string. In \<open>docSopsIntKey\<close> the metadata block has the integer key
  \<^verbatim>\<open>1\<close>; \<^verbatim>\<open>Load\<close> strips the block before the conversion, which never sees the
  key, and returns the tree of the other entry.
\<close>

theorem C9_string_keys_counterexample:
  "Unmarshal_MapSlice exampleYaml docSopsIntKey
     = Inr [(GString ''a'', GInt 1), (GString ''sops'', GMapSlice [(GInt 1, GString ''x'')])]
   \<and> \<not> stringKeysItems
         [(GString ''a'', GInt 1), (GString ''sops'', GMapSlice [(GInt 1, GString ''x'')])]
   \<and> Load exampleYaml id docSopsIntKey = Inr (Some [(''a'', GInt 1)], None)"
  by (simp add: Load_def docSopsIntKey_decoded Load_loop_eval)

text \<open>
  Claim C9, amended. The conversion of \<^verbatim>\<open>Load\<close> is total only under the
  precondition that every mapping key, at every depth of the entries that are
  converted, is a string: \<^verbatim>\<open>mapSliceToTreeBranch\<close> and \<^verbatim>\<open>yamlMapToTreeBranch\<close>
  return a branch exactly when all keys of their argument are strings, and when
  \<^verbatim>\<open>Load\<close> returns a tree, the keys of all top-level entries other than the
  \<^verbatim>\<open>sops\<close> entries it strips are strings at every depth. When every key of the
  parsed document is a string, the key conversion never fails: \<^verbatim>\<open>Load\<close> does not
  end in a failed assertion. The unchecked assertion is reachable: on the document
  \<^verbatim>\<open>1: x\<close>, whose key is an integer, \<^verbatim>\<open>Load\<close> returns neither a value nor an
  error but panics.
\<close>

theorem C9_string_keys_amended:
  "((\<exists>branch. mapSliceToTreeBranch rng m = Inr branch) \<longleftrightarrow> stringKeysItems m)
   \<and> ((\<exists>branch. yamlMapToTreeBranch rng m = Inr branch) \<longleftrightarrow> stringKeysItems m)
   \<and> (Unmarshal_MapSlice lib inp = Inr data \<and> Load lib rng inp = Inr (Some tree, err) \<longrightarrow>
        stringKeysItems (filter notSops data))
   \<and> (Unmarshal_MapSlice lib inp = Inr data \<and> stringKeysItems data \<longrightarrow>
        (\<forall>site. Load lib rng inp \<noteq> Inl (InterfaceConversion site)))
   \<and> Unmarshal_MapSlice exampleYaml docIntKey = Inr [(GInt 1, GString ''x'')]
   \<and> \<not> stringKeysItems [(GInt 1, GString ''x'')]
   \<and> Load exampleYaml rng docIntKey = Inl (InterfaceConversion ''item.Key'')"
proof -
  have "Load exampleYaml rng docIntKey = Inl (InterfaceConversion ''item.Key'')"
    by (simp add: Load_def docIntKey_decoded Load_loop_eval)
  moreover have "Unmarshal_MapSlice lib inp = Inr data \<and> Load lib rng inp = Inr (Some tree, err)
      \<longrightarrow> stringKeysItems (filter notSops data)"
    by (auto dest: Load_returns_string_keys)
  ultimately show ?thesis
    by (simp add: returns_iff_not_isl conversion_panics_iff docIntKey_decoded
        Load_not_InterfaceConversion del: yamlMapToTreeBranch.simps)
qed

theorem C9_string_keys_amended_witness:
  "Unmarshal_MapSlice exampleYaml docNested
     = Inr [(GString ''a'', GMapSlice [(GString ''x'', GInt 1), (GString ''z'', GInt 2)]),
            (GString ''b'', GSlice [GString ''p'', GString ''q''])]
   \<and> stringKeysItems [(GString ''a'', GMapSlice [(GString ''x'', GInt 1), (GString ''z'', GInt 2)]),
            (GString ''b'', GSlice [GString ''p'', GString ''q''])]
   \<and> (\<forall>site. Load exampleYaml id docNested \<noteq> Inl (InterfaceConversion site))
   \<and> Load exampleYaml id docNested
       = Inr (Some [(''a'', GTreeBranch [(''x'', GInt 1), (''z'', GInt 2)]),
                    (''b'', GSlice [GString ''p'', GString ''q''])], None)"
  using C9_string_keys_amended [of id
      "[(GString ''a'', GMapSlice [(GString ''x'', GInt 1), (GString ''z'', GInt 2)]),
        (GString ''b'', GSlice [GString ''p'', GString ''q''])]"
      exampleYaml docNested
      "[(GString ''a'', GMapSlice [(GString ''x'', GInt 1), (GString ''z'', GInt 2)]),
        (GString ''b'', GSlice [GString ''p'', GString ''q''])]"]
  by (simp add: docNested_decoded Load_def Load_loop_eval)

section \<open>What Load returns\<close>

text \<open>The branch has the keys of the converted items, in their order.\<close>

lemma mapSliceToTreeBranch_keys:
  "mapSliceToTreeBranch rng m = Inr b \<Longrightarrow> map (\<lambda>item. GString (fst item)) b = map fst m"
  by (induction m arbitrary: b) (auto split: sum.splits simp: assertString_Inr)

lemma returnsE:
  assumes "\<not> isl x"
  obtains y where "x = Inr y"
  using assms by (cases x) auto

lemma docSopsFirst_decoded:
  "Unmarshal_MapSlice exampleYaml docSopsFirst
     = Inr [(GString ''sops'', GMapSlice [(GString ''mac'', GString ''m'')]),
            (GString ''a'', GInt 1),
            (GString ''b'', GSlice [GString ''x'', GString ''z''])]"
  by (simp add: example_defs)


text \<open>
  Claim C2, as stated, fails. The document \<open>docIntKey\<close> (\<^verbatim>\<open>1: x\<close>) is well-formed
  YAML and its one top-level key is unique, but the key is an integer: \<^verbatim>\<open>Load\<close>
  panics in the unchecked assertion on the key and returns no tree.
\<close>

theorem C2_strip_metadata_counterexample:
  "Unmarshal_MapSlice exampleYaml docIntKey = Inr [(GInt 1, GString ''x'')]
   \<and> distinct (map fst [(GInt 1, GString ''x'')])
   \<and> Load exampleYaml id docIntKey = Inl (InterfaceConversion ''item.Key'')"
  by (simp add: Load_def docIntKey_decoded Load_loop_eval)

text \<open>
  Claim C2, amended. For every document that the parser accepts, whose top-level keys
  are unique and whose mapping keys are strings at every depth, \<^verbatim>\<open>Load\<close> returns a
  tree without an error. The tree has no top-level item with the key \<^verbatim>\<open>sops\<close>, and
  every other top-level item is there exactly once and in its place: the tree is the
  conversion of the top-level items other than the \<^verbatim>\<open>sops\<close> item, in the order of
  the document.
\<close>

theorem C2_strip_metadata_amended:
  assumes "Unmarshal_MapSlice lib inp = Inr data"
    and "distinct (map fst data)"
    and "stringKeysItems data"
  shows "\<exists>branch. Load lib rng inp = Inr (Some branch, None)
     \<and> ''sops'' \<notin> fst ` set branch
     \<and> map (\<lambda>item. GString (fst item)) branch
         = filter (\<lambda>k. k \<noteq> GString ''sops'') (map fst data)
     \<and> mapSliceToTreeBranch rng (filter notSops data) = Inr branch"
proof -
  from assms(3) have "stringKeysItems (filter notSops data)"
    by (auto simp: stringKeysItems_all)
  then have "\<not> isl (mapSliceToTreeBranch rng (filter notSops data))"
    by (simp add: conversion_panics_iff)
  then obtain branch where branch: "mapSliceToTreeBranch rng (filter notSops data) = Inr branch"
    by (rule returnsE)
  with assms(1) Load_loop_distinct [OF assms(2)]
  have load: "Load lib rng inp = Inr (Some branch, None)"
    by (simp add: Load_def)
  have "map fst (filter notSops data) = filter (\<lambda>k. k \<noteq> GString ''sops'') (map fst data)"
    by (simp add: filter_map comp_def notSops_def [abs_def])
  with mapSliceToTreeBranch_keys [OF branch]
  have keys: "map (\<lambda>item. GString (fst item)) branch
      = filter (\<lambda>k. k \<noteq> GString ''sops'') (map fst data)"
    by simp
  have "''sops'' \<notin> fst ` set branch"
  proof
    assume "''sops'' \<in> fst ` set branch"
    then have "GString ''sops'' \<in> set (map (\<lambda>item. GString (fst item)) branch)"
      by auto
    then show False
      unfolding keys by simp
  qed
  with load keys branch show ?thesis
    by blast
qed

theorem C2_strip_metadata_amended_witness:
  "Unmarshal_MapSlice exampleYaml docSopsFirst
     = Inr [(GString ''sops'', GMapSlice [(GString ''mac'', GString ''m'')]),
            (GString ''a'', GInt 1),
            (GString ''b'', GSlice [GString ''x'', GString ''z''])]
   \<and> distinct (map fst [(GString ''sops'', GMapSlice [(GString ''mac'', GString ''m'')]),
            (GString ''a'', GInt 1),
            (GString ''b'', GSlice [GString ''x'', GString ''z''])])
   \<and> stringKeysItems [(GString ''sops'', GMapSlice [(GString ''mac'', GString ''m'')]),
            (GString ''a'', GInt 1),
            (GString ''b'', GSlice [GString ''x'', GString ''z''])]
   \<and> (\<exists>branch. Load exampleYaml id docSopsFirst = Inr (Some branch, None)
         \<and> ''sops'' \<notin> fst ` set branch
         \<and> map (\<lambda>item. GString (fst item)) branch = [GString ''a'', GString ''b''])"
  using C2_strip_metadata_amended [OF docSopsFirst_decoded, of id]
  by (auto simp: docSopsFirst_decoded)

section \<open>The order of the items\<close>







end
